theory Spec2Isabelle
  imports Complex_Main
begin

section \<open>Numbers as the array library shows them\<close>

text \<open>
  The source computes on 64-bit floating-point numbers. They are modelled as exact reals
  extended with the three special values that the source tests for (\<open>np.isfinite\<close>,
  \<open>np.nan_to_num\<close>, comparisons that are false on NaN). Rounding, overflow to
  infinity and the sign of zero are not modelled: every theorem below is about exact
  arithmetic on these four kinds of value.
\<close>

datatype npfloat = Fin real | PosInf | NegInf | NaN

fun np_isfinite :: "npfloat \<Rightarrow> bool" where
  "np_isfinite (Fin _) = True"
| "np_isfinite _ = False"

fun np_isnan :: "npfloat \<Rightarrow> bool" where
  "np_isnan NaN = True"
| "np_isnan _ = False"

text \<open>Comparisons: every comparison with NaN is false, also \<open>NaN == NaN\<close>.\<close>

fun np_lt :: "npfloat \<Rightarrow> npfloat \<Rightarrow> bool" where
  "np_lt (Fin a) (Fin b) = (a < b)"
| "np_lt (Fin a) PosInf = True"
| "np_lt NegInf (Fin b) = True"
| "np_lt NegInf PosInf = True"
| "np_lt _ _ = False"

definition np_gt :: "npfloat \<Rightarrow> npfloat \<Rightarrow> bool" where
  "np_gt x y = np_lt y x"

fun np_eq :: "npfloat \<Rightarrow> npfloat \<Rightarrow> bool" where
  "np_eq (Fin a) (Fin b) = (a = b)"
| "np_eq PosInf PosInf = True"
| "np_eq NegInf NegInf = True"
| "np_eq _ _ = False"

definition np_le :: "npfloat \<Rightarrow> npfloat \<Rightarrow> bool" where
  "np_le x y = (np_lt x y \<or> np_eq x y)"

fun np_neg :: "npfloat \<Rightarrow> npfloat" where
  "np_neg (Fin a) = Fin (- a)"
| "np_neg PosInf = NegInf"
| "np_neg NegInf = PosInf"
| "np_neg NaN = NaN"

fun np_add :: "npfloat \<Rightarrow> npfloat \<Rightarrow> npfloat" where
  "np_add (Fin a) (Fin b) = Fin (a + b)"
| "np_add NaN _ = NaN"
| "np_add _ NaN = NaN"
| "np_add PosInf NegInf = NaN"
| "np_add NegInf PosInf = NaN"
| "np_add PosInf _ = PosInf"
| "np_add _ PosInf = PosInf"
| "np_add NegInf _ = NegInf"
| "np_add _ NegInf = NegInf"

definition np_sub :: "npfloat \<Rightarrow> npfloat \<Rightarrow> npfloat" where
  "np_sub x y = np_add x (np_neg y)"

text \<open>The sign of a value: \<open>1\<close>, \<open>-1\<close>, or \<open>0\<close> for zero and NaN.\<close>

fun np_sign :: "npfloat \<Rightarrow> int" where
  "np_sign (Fin a) = (if 0 < a then 1 else if a < 0 then - 1 else 0)"
| "np_sign PosInf = 1"
| "np_sign NegInf = - 1"
| "np_sign NaN = 0"

definition inf_of_sign :: "int \<Rightarrow> npfloat" where
  "inf_of_sign s = (if 0 < s then PosInf else if s < 0 then NegInf else NaN)"

fun np_mul :: "npfloat \<Rightarrow> npfloat \<Rightarrow> npfloat" where
  "np_mul (Fin a) (Fin b) = Fin (a * b)"
| "np_mul NaN _ = NaN"
| "np_mul _ NaN = NaN"
| "np_mul x y = inf_of_sign (np_sign x * np_sign y)"

text \<open>
  Division with the array library's error state set to ignore: a finite value over zero
  is an infinity of its sign, zero over zero and infinity over infinity are NaN.
\<close>

fun np_div :: "npfloat \<Rightarrow> npfloat \<Rightarrow> npfloat" where
  "np_div (Fin a) (Fin b) = (if b = 0 then inf_of_sign (np_sign (Fin a)) else Fin (a / b))"
| "np_div NaN _ = NaN"
| "np_div _ NaN = NaN"
| "np_div (Fin a) _ = Fin 0"
| "np_div x (Fin b) = inf_of_sign (np_sign x * (if b < 0 then - 1 else 1))"
| "np_div _ _ = NaN"

fun np_sqrt :: "npfloat \<Rightarrow> npfloat" where
  "np_sqrt (Fin a) = (if a < 0 then NaN else Fin (sqrt a))"
| "np_sqrt PosInf = PosInf"
| "np_sqrt _ = NaN"

fun np_abs :: "npfloat \<Rightarrow> npfloat" where
  "np_abs (Fin a) = Fin \<bar>a\<bar>"
| "np_abs NaN = NaN"
| "np_abs _ = PosInf"

text \<open>The largest finite 64-bit float, which \<open>np.nan_to_num\<close> puts in place of infinity.\<close>

definition float_max :: real where
  "float_max = (2 - 1 / 2 ^ 52) * 2 ^ 1023"

section \<open>Errors, warnings and the state of the session\<close>

text \<open>
  Every \<open>raise\<close> of the source is a value of \<open>error\<close>; the string is the fixed part of
  the message (the numbers an f-string puts into it are left out). A warning carries the
  value it reports.
\<close>

datatype error = ValueError string | TypeError string | IndexError string

datatype warning =
    RangeIgnored
  | LowCoverage npfloat

fun is_ValueError :: "error \<Rightarrow> bool" where
  "is_ValueError (ValueError _) = True"
| "is_ValueError _ = False"

text \<open>
  The objects of the plotting library are handles: the module \<open>plt\<close>, figures, axes
  and what a plotting call returns.
\<close>

datatype obj = Plt | Fig nat | Ax nat | Artist nat

text \<open>
  Values passed to the plotting library: what a keyword argument can hold.
\<close>

datatype pyval =
    PNone
  | PBool bool
  | PInt int
  | PNum npfloat
  | PStr string
  | PList "pyval list"
  | PDict "(string \<times> pyval) list"
  | PObj obj

text \<open>
  A call to the library is recorded with its receiver, the method name and the arguments
  by keyword (\<open>arg0\<close>, \<open>arg1\<close> for positional ones), in the order the source makes
  the calls. The library's own failures are not modelled.
\<close>


record call =
  receiver :: obj
  meth :: string
  args :: "(string \<times> pyval) list"

record world =
  calls :: "call list"
  warnings :: "warning list"
  fresh :: nat

text \<open>
  A source function is a state transformer that ends with a result or an error. The
  state is kept in both cases: what was plotted before an exception stays plotted.
\<close>

type_synonym 'a M = "world \<Rightarrow> (error + 'a) \<times> world"

definition ret :: "'a \<Rightarrow> 'a M" where
  "ret x w = (Inr x, w)"

definition raise :: "error \<Rightarrow> 'a M" where
  "raise e w = (Inl e, w)"

definition bnd :: "'a M \<Rightarrow> ('a \<Rightarrow> 'b M) \<Rightarrow> 'b M" where
  "bnd m f w = (case m w of (Inl e, w') \<Rightarrow> (Inl e, w') | (Inr x, w') \<Rightarrow> f x w')"

definition seq :: "unit M \<Rightarrow> 'b M \<Rightarrow> 'b M" where
  "seq m k = bnd m (\<lambda>_. k)"

definition lift :: "error + 'a \<Rightarrow> 'a M" where
  "lift r w = (r, w)"

definition warn :: "warning \<Rightarrow> unit M" where
  "warn x w = (Inr (), w\<lparr>warnings := warnings w @ [x]\<rparr>)"

definition emit :: "obj \<Rightarrow> string \<Rightarrow> (string \<times> pyval) list \<Rightarrow> unit M" where
  "emit r m a w = (Inr (), w\<lparr>calls := calls w @ [\<lparr>receiver = r, meth = m, args = a\<rparr>]\<rparr>)"

definition when_do :: "bool \<Rightarrow> unit M \<Rightarrow> unit M" where
  "when_do b m = (if b then m else ret ())"

section \<open>Axes and histograms of the histogram library\<close>

text \<open>
  \<open>bh.axis.Regular(bins, start, stop)\<close> and \<open>bh.axis.Variable(edges)\<close>. The
  constructors are data: the library's own validation of their arguments (a positive
  number of bins) is not modelled.
\<close>

datatype axis = Regular int npfloat npfloat | Variable "npfloat list"

section \<open>create\_axis\<close>

text \<open>
  The arguments of \<open>create_axis\<close>: \<open>bins\<close> is an integer or a sequence of edges;
  \<open>range\<close> (written \<open>rng\<close> below) is \<open>None\<close> or a pair whose first entry is a number or the string
  \<open>"min"\<close> and whose second entry is a number or the string \<open>"max"\<close>
  (\<open>FromData\<close> stands for the string in either place).
\<close>

datatype bins_arg = NBins int | BinEdges "npfloat list"

datatype bound = FromData | Given npfloat

text \<open>
  Python's built-in \<open>min\<close> and \<open>max\<close> on the data: the first element is the
  candidate, a later element replaces it when it compares strictly smaller (larger);
  an empty sequence raises ValueError.
\<close>

fun min_from :: "npfloat \<Rightarrow> npfloat list \<Rightarrow> npfloat" where
  "min_from acc [] = acc"
| "min_from acc (x # xs) = min_from (if np_lt x acc then x else acc) xs"

fun max_from :: "npfloat \<Rightarrow> npfloat list \<Rightarrow> npfloat" where
  "max_from acc [] = acc"
| "max_from acc (x # xs) = max_from (if np_gt x acc then x else acc) xs"

fun py_min :: "npfloat list \<Rightarrow> error + npfloat" where
  "py_min [] = Inl (ValueError ''min() arg is an empty sequence'')"
| "py_min (x # xs) = Inr (min_from x xs)"

fun py_max :: "npfloat list \<Rightarrow> error + npfloat" where
  "py_max [] = Inl (ValueError ''max() arg is an empty sequence'')"
| "py_max (x # xs) = Inr (max_from x xs)"

text \<open>Lines 99 and 100: the two ends of an explicit range.\<close>

fun resolve_min :: "npfloat list \<Rightarrow> bound \<Rightarrow> error + npfloat" where
  "resolve_min data FromData = py_min data"
| "resolve_min data (Given v) = Inr v"

fun resolve_max :: "npfloat list \<Rightarrow> bound \<Rightarrow> error + npfloat" where
  "resolve_max data FromData = py_max data"
| "resolve_max data (Given v) = Inr v"

text \<open>Lines 98 to 113: the range before a degenerate one is widened.\<close>

definition resolve_range :: "npfloat list \<Rightarrow> (bound \<times> bound) option \<Rightarrow> error + (npfloat \<times> npfloat)" where
  "resolve_range data rng =
     (case rng of
        Some (r0, r1) \<Rightarrow>
          (case resolve_min data r0 of
             Inl e \<Rightarrow> Inl e
           | Inr x_min \<Rightarrow>
               (case resolve_max data r1 of
                  Inl e \<Rightarrow> Inl e
                | Inr x_max \<Rightarrow>
                    if np_gt x_min x_max
                    then Inl (ValueError ''Range is not valid. Max must be larger than min.'')
                    else if \<not> (np_isfinite x_min \<and> np_isfinite x_max)
                    then Inl (ValueError ''Range is not finite.'')
                    else Inr (x_min, x_max)))
      | None \<Rightarrow>
          if data = [] then Inr (Fin 0, Fin 1)
          else
            (case py_min data of
               Inl e \<Rightarrow> Inl e
             | Inr x_min \<Rightarrow>
                 (case py_max data of
                    Inl e \<Rightarrow> Inl e
                  | Inr x_max \<Rightarrow>
                      if \<not> (np_isfinite x_min \<and> np_isfinite x_max)
                      then Inl (ValueError ''Autodetected range is not finite.'')
                      else Inr (x_min, x_max))))"

text \<open>Lines 116 to 118: a range of no width is widened by one half on each side.\<close>

definition expand_range :: "npfloat \<times> npfloat \<Rightarrow> npfloat \<times> npfloat" where
  "expand_range r =
     (case r of (x_min, x_max) \<Rightarrow>
        if np_eq x_min x_max
        then (np_sub x_min (Fin (1 / 2)), np_add x_max (Fin (1 / 2)))
        else (x_min, x_max))"

text \<open>
  Line 120. The regular axis takes an integer; a sequence of at most one edge reaches
  this line as well, and the library refuses it.
\<close>

fun regular_axis :: "bins_arg \<Rightarrow> npfloat \<times> npfloat \<Rightarrow> error + axis" where
  "regular_axis (NBins n) (x_min, x_max) = Inr (Regular n x_min x_max)"
| "regular_axis (BinEdges es) _ = Inl (TypeError ''bins must be an integer'')"

definition create_axis :: "npfloat list \<Rightarrow> bins_arg \<Rightarrow> (bound \<times> bound) option \<Rightarrow> axis M" where
  "create_axis data bins rng =
     (let N = (case bins of NBins _ \<Rightarrow> 1 | BinEdges es \<Rightarrow> length es) in
      if 1 < N then
        seq (when_do (rng \<noteq> None) (warn RangeIgnored))
            (ret (Variable (case bins of BinEdges es \<Rightarrow> es | NBins _ \<Rightarrow> [])))
      else
        bnd (lift (resolve_range data rng)) (\<lambda>r.
        lift (regular_axis bins (expand_range r))))"

section \<open>Histograms\<close>

text \<open>
  A histogram of the histogram library: its axes, the kind of storage, and for every
  cell the pair of the value and the variance. A cell is addressed by one index per
  axis; index \<open>-1\<close> is the underflow bin and index \<open>size\<close> the overflow bin.
  A histogram with the storage \<open>Double\<close> is only ever filled without weights here,
  so its variance is its count.
\<close>

datatype storage_kind = Double | Weight

record hist =
  axes :: "axis list"
  storage :: storage_kind
  cells :: "int list \<Rightarrow> npfloat \<times> npfloat"

fun axis_size :: "axis \<Rightarrow> int" where
  "axis_size (Regular n lo hi) = n"
| "axis_size (Variable es) = int (length es) - 1"

fun axis_edges :: "axis \<Rightarrow> npfloat list" where
  "axis_edges (Regular n lo hi) =
     map (\<lambda>i. np_add lo (np_div (np_mul (np_sub hi lo) (Fin (real_of_int i))) (Fin (real_of_int n)))) [0..n]"
| "axis_edges (Variable es) = es"

definition axis_centers :: "axis \<Rightarrow> npfloat list" where
  "axis_centers a =
     map (\<lambda>(l, u). np_div (np_add l u) (Fin 2)) (zip (axis_edges a) (tl (axis_edges a)))"

definition axis_widths :: "axis \<Rightarrow> npfloat list" where
  "axis_widths a = map (\<lambda>(l, u). np_sub u l) (zip (axis_edges a) (tl (axis_edges a)))"

text \<open>
  The bin of a value. Regular axis: with \<open>z = (x - start) / (stop - start)\<close>, the bin is
  \<open>floor (z * n)\<close> when \<open>0 \<le> z < 1\<close>, underflow when \<open>z < 0\<close>, overflow otherwise
  (the upper edge and NaN are overflow). Variable axis: one less than the position of
  the first edge above the value.
\<close>

fun axis_index :: "axis \<Rightarrow> npfloat \<Rightarrow> int" where
  "axis_index (Regular n lo hi) x =
     (let z = np_div (np_sub x lo) (np_sub hi lo) in
      if np_lt z (Fin 1) then
        (case z of Fin r \<Rightarrow> (if 0 \<le> r then \<lfloor>r * real_of_int n\<rfloor> else - 1) | _ \<Rightarrow> - 1)
      else n)"
| "axis_index (Variable es) x = int (length (takeWhile (\<lambda>e. \<not> np_lt x e) es)) - 1"

text \<open>The cells in the binning range, in row-major order, and all cells with the flow bins.\<close>

definition inner_indices :: "axis list \<Rightarrow> int list list" where
  "inner_indices as = product_lists (map (\<lambda>a. [0..axis_size a - 1]) as)"

definition flow_indices :: "axis list \<Rightarrow> int list list" where
  "flow_indices as = product_lists (map (\<lambda>a. [- 1..axis_size a]) as)"

text \<open>\<open>h.values()\<close>, \<open>h.variances()\<close> and \<open>h.values(flow=True)\<close>, flattened.\<close>

definition hvalues :: "hist \<Rightarrow> npfloat list" where
  "hvalues h = map (\<lambda>i. fst (cells h i)) (inner_indices (axes h))"

definition variances :: "hist \<Rightarrow> npfloat list" where
  "variances h = map (\<lambda>i. snd (cells h i)) (inner_indices (axes h))"

definition values_flow :: "hist \<Rightarrow> npfloat list" where
  "values_flow h = map (\<lambda>i. fst (cells h i)) (flow_indices (axes h))"

text \<open>The sum of an array.\<close>

primrec np_sum :: "npfloat list \<Rightarrow> npfloat" where
  "np_sum [] = Fin 0"
| "np_sum (x # xs) = np_add x (np_sum xs)"

definition empty_hist :: "axis list \<Rightarrow> storage_kind \<Rightarrow> hist" where
  "empty_hist as st = \<lparr>axes = as, storage = st, cells = (\<lambda>_. (Fin 0, Fin 0))\<rparr>"

text \<open>
  \<open>h.fill(..., weight=weights)\<close>. The weights are \<open>None\<close>, one number for every
  entry, or one number per entry; an entry adds its weight to the value of its cell and
  the square of its weight to the variance (without weights: one to both).
\<close>

datatype weights_arg = WNone | WScalar npfloat | WArray "npfloat list"

definition increment :: "npfloat \<Rightarrow> npfloat \<times> npfloat" where
  "increment wt = (wt, np_mul wt wt)"

fun expand_weights :: "weights_arg \<Rightarrow> nat \<Rightarrow> error + (npfloat \<times> npfloat) list" where
  "expand_weights WNone n = Inr (replicate n (Fin 1, Fin 1))"
| "expand_weights (WScalar wt) n = Inr (replicate n (increment wt))"
| "expand_weights (WArray ws) n =
     (if length ws = n then Inr (map increment ws)
      else Inl (ValueError ''spans must have compatible lengths''))"

definition point_index :: "axis list \<Rightarrow> npfloat list \<Rightarrow> int list" where
  "point_index as pt = map (\<lambda>(a, x). axis_index a x) (zip as pt)"

definition fill_step :: "hist \<Rightarrow> npfloat list \<times> (npfloat \<times> npfloat) \<Rightarrow> hist" where
  "fill_step h e =
     (case e of (pt, (dv, dvar)) \<Rightarrow>
        let i = point_index (axes h) pt in
        h\<lparr>cells := (cells h)(i := (np_add (fst (cells h i)) dv, np_add (snd (cells h i)) dvar))\<rparr>)"

definition fill :: "hist \<Rightarrow> npfloat list list \<Rightarrow> weights_arg \<Rightarrow> error + hist" where
  "fill h pts weights =
     (case expand_weights weights (length pts) of
        Inl e \<Rightarrow> Inl e
      | Inr incs \<Rightarrow> Inr (foldl fill_step h (zip pts incs)))"

section \<open>make\_hist and make\_2d\_hist\<close>

text \<open>Lines 182 to 188 and 236 to 242: the share of the filled content in the binning range.\<close>

definition range_coverage :: "hist \<Rightarrow> npfloat" where
  "range_coverage h = np_div (np_sum (hvalues h)) (np_sum (values_flow h))"

definition check_coverage :: "hist \<Rightarrow> unit M" where
  "check_coverage h =
     when_do (np_lt (range_coverage h) (Fin (99 / 100))) (warn (LowCoverage (range_coverage h)))"

definition make_hist ::
  "npfloat list \<Rightarrow> bins_arg \<Rightarrow> (bound \<times> bound) option \<Rightarrow> weights_arg \<Rightarrow> hist M" where
  "make_hist data bins rng weights =
     bnd (create_axis data bins rng) (\<lambda>axis.
     let st = (if weights = WNone then Double else Weight) in
     bnd (lift (fill (empty_hist [axis] st) (map (\<lambda>x. [x]) data) weights)) (\<lambda>h.
     seq (check_coverage h) (ret h)))"

definition make_2d_hist ::
  "npfloat list list \<Rightarrow> bins_arg \<times> bins_arg \<Rightarrow>
   (bound \<times> bound) option \<times> (bound \<times> bound) option \<Rightarrow> weights_arg \<Rightarrow> hist M" where
  "make_2d_hist data bins rng weights =
     (if length data \<noteq> 2 then raise (ValueError ''data should have two components, x and y'')
      else if length (data ! 0) \<noteq> length (data ! 1)
      then raise (ValueError ''x and y must have the same length.'')
      else
        bnd (create_axis (data ! 0) (fst bins) (fst rng)) (\<lambda>axis0.
        bnd (create_axis (data ! 1) (snd bins) (snd rng)) (\<lambda>axis1.
        bnd (lift (fill (empty_hist [axis0, axis1] Weight)
                     (map (\<lambda>(x, y). [x, y]) (zip (data ! 0) (data ! 1))) weights)) (\<lambda>h.
        seq (check_coverage h) (ret h)))))"

text \<open>
  What the coverage warning is about, in terms of the data: an axis contains a value
  that is at or above its first edge and below its last edge; the content in the
  binning range is the summed weight of the entries that every axis contains, the total
  content the summed weight of all entries. \<open>axis_ok\<close> is what the histogram library
  asks of an axis: a positive number of bins over a finite interval of positive width,
  or at least two finite edges in strictly ascending order.
\<close>

fun axis_ok :: "axis \<Rightarrow> bool" where
  "axis_ok (Regular n (Fin a) (Fin b)) = (0 < n \<and> a < b)"
| "axis_ok (Regular n _ _) = False"
| "axis_ok (Variable es) = (2 \<le> length es \<and> list_all np_isfinite es \<and> sorted_wrt np_lt es)"

fun axis_contains :: "axis \<Rightarrow> npfloat \<Rightarrow> bool" where
  "axis_contains (Regular n lo hi) x = (np_le lo x \<and> np_lt x hi)"
| "axis_contains (Variable es) x = (es \<noteq> [] \<and> np_le (hd es) x \<and> np_lt x (last es))"

definition point_inside :: "axis list \<Rightarrow> npfloat list \<Rightarrow> bool" where
  "point_inside as pt = list_all2 axis_contains as pt"

definition content_inside ::
  "axis list \<Rightarrow> npfloat list list \<Rightarrow> (npfloat \<times> npfloat) list \<Rightarrow> npfloat" where
  "content_inside as pts incs =
     np_sum (map (\<lambda>e. fst (snd e)) (filter (\<lambda>e. point_inside as (fst e)) (zip pts incs)))"

definition content_total :: "npfloat list list \<Rightarrow> (npfloat \<times> npfloat) list \<Rightarrow> npfloat" where
  "content_total pts incs = np_sum (map (\<lambda>e. fst (snd e)) (zip pts incs))"

definition coverage_warnings ::
  "axis list \<Rightarrow> npfloat list list \<Rightarrow> (npfloat \<times> npfloat) list \<Rightarrow> warning list" where
  "coverage_warnings as pts incs =
     (let c = np_div (content_inside as pts incs) (content_total pts incs) in
      if np_lt c (Fin (99 / 100)) then [LowCoverage c] else [])"

section \<open>Keyword dictionaries and calls\<close>

text \<open>
  A dictionary of keyword arguments keeps its keys in order of insertion.
  \<open>setdefault\<close> and \<open>pop\<close> change the dictionary they are called on: the functions
  below return the dictionary as it is after the call.
\<close>

type_synonym pydict = "(string \<times> pyval) list"

definition setdefault :: "pydict \<Rightarrow> string \<Rightarrow> pyval \<Rightarrow> pydict" where
  "setdefault d k v = (if k \<in> set (map fst d) then d else d @ [(k, v)])"

definition dict_pop :: "pydict \<Rightarrow> string \<Rightarrow> pyval \<Rightarrow> pyval \<times> pydict" where
  "dict_pop d k dflt =
     (case map_of d k of
        Some v \<Rightarrow> (v, filter (\<lambda>e. fst e \<noteq> k) d)
      | None \<Rightarrow> (dflt, d))"

definition dict_get :: "pydict \<Rightarrow> string \<Rightarrow> pyval \<Rightarrow> pyval" where
  "dict_get d k dflt = (case map_of d k of Some v \<Rightarrow> v | None \<Rightarrow> dflt)"

text \<open>The truth value Python gives an object in a condition.\<close>

fun truthy :: "pyval \<Rightarrow> bool" where
  "truthy PNone = False"
| "truthy (PBool b) = b"
| "truthy (PInt n) = (n \<noteq> 0)"
| "truthy (PNum x) = (\<not> np_eq x (Fin 0))"
| "truthy (PStr s) = (s \<noteq> [])"
| "truthy (PList l) = (l \<noteq> [])"
| "truthy (PDict d) = (d \<noteq> [])"
| "truthy (PObj _) = True"

text \<open>
  A call \<open>f(a=1, **kwargs)\<close>: a keyword that is given twice is a TypeError, raised
  before the function runs.
\<close>

definition kwcall :: "pydict \<Rightarrow> pydict \<Rightarrow> error + pydict" where
  "kwcall explicit kw =
     (if list_ex (\<lambda>k. k \<in> set (map fst explicit)) (map fst kw)
      then Inl (TypeError ''got multiple values for keyword argument'')
      else Inr (explicit @ kw))"

definition pyfloats :: "npfloat list \<Rightarrow> pyval" where
  "pyfloats xs = PList (map PNum xs)"

definition pytuple :: "npfloat \<times> npfloat \<Rightarrow> pyval" where
  "pytuple p = PList [PNum (fst p), PNum (snd p)]"

text \<open>A call of the plotting library whose result is a new object of the library.\<close>

definition emit_new :: "obj \<Rightarrow> string \<Rightarrow> pydict \<Rightarrow> obj M" where
  "emit_new r m a w =
     (Inr (Artist (fresh w)),
      w\<lparr>calls := calls w @ [\<lparr>receiver = r, meth = m, args = a\<rparr>], fresh := Suc (fresh w)\<rparr>)"

text \<open>
  \<open>plt.subplots\<close> with \<open>n\<close> axes: a new figure and \<open>n\<close> new axes.
\<close>

definition subplots :: "nat \<Rightarrow> pydict \<Rightarrow> (obj \<times> obj list) M" where
  "subplots n a w =
     (Inr (Fig (fresh w), map Ax [Suc (fresh w)..<Suc (fresh w) + n]),
      w\<lparr>calls := calls w @ [\<lparr>receiver = Plt, meth = ''subplots'', args = a\<rparr>],
        fresh := Suc (fresh w) + n\<rparr>)"

fun for_each :: "'a list \<Rightarrow> ('a \<Rightarrow> unit M) \<Rightarrow> unit M" where
  "for_each [] f = ret ()"
| "for_each (x # xs) f = seq (f x) (for_each xs f)"

fun map_M :: "('a \<Rightarrow> error + 'b) \<Rightarrow> 'a list \<Rightarrow> error + 'b list" where
  "map_M f [] = Inr []"
| "map_M f (x # xs) =
     (case f x of
        Inl e \<Rightarrow> Inl e
      | Inr y \<Rightarrow> (case map_M f xs of Inl e \<Rightarrow> Inl e | Inr ys \<Rightarrow> Inr (y # ys)))"

section \<open>create\_comparison\_figure\<close>

text \<open>Lines 22 to 60, with the default arguments, which is how the source calls it.\<close>

definition create_comparison_figure :: "(obj \<times> obj list) M" where
  "create_comparison_figure =
     bnd (subplots 2
            [(''nrows'', PInt 2),
             (''figsize'', PList [PNum (Fin 6), PNum (Fin 5)]),
             (''gridspec_kw'', PDict [(''height_ratios'', PList [PInt 4, PInt 1])])]) (\<lambda>r.
     seq (emit (fst r) ''subplots_adjust'' [(''hspace'', PNum (Fin (15 / 100)))])
    (seq (for_each (butlast (snd r)) (\<lambda>ax. emit ax ''xaxis.set_ticklabels'' [(''arg0'', PList [])]))
         (ret r)))"

section \<open>Histogram operations used by the plotting functions\<close>

text \<open>
  A histogram with the weighted storage on one axis whose cells in the binning range are
  set from two arrays, \<open>h[:] = np.c_[values, variances]\<close>. The arrays must have one
  entry per bin.
\<close>

definition view_cells :: "npfloat list \<Rightarrow> npfloat list \<Rightarrow> int list \<Rightarrow> npfloat \<times> npfloat" where
  "view_cells vals vars i =
     (case i of
        [k] \<Rightarrow> if 0 \<le> k \<and> k < int (length vals) then (vals ! nat k, vars ! nat k)
               else (Fin 0, Fin 0)
      | _ \<Rightarrow> (Fin 0, Fin 0))"

definition weight_hist :: "axis \<Rightarrow> npfloat list \<Rightarrow> npfloat list \<Rightarrow> error + hist" where
  "weight_hist a vals vars =
     (if int (length vals) \<noteq> axis_size a \<or> length vars \<noteq> length vals
      then Inl (ValueError ''shape mismatch in histogram assignment'')
      else Inr \<lparr>axes = [a], storage = Weight, cells = view_cells vals vars\<rparr>)"

text \<open>Lines 123 to 143.\<close>

definition flatten_2d_hist :: "hist \<Rightarrow> error + hist" where
  "flatten_2d_hist h =
     (if length (axes h) < 2 then Inl (IndexError ''tuple index out of range'')
      else
        let n_bins = axis_size (axes h ! 0) * axis_size (axes h ! 1) in
        weight_hist (Regular n_bins (Fin 0) (Fin (real_of_int n_bins))) (hvalues h) (variances h))"

text \<open>
  The sum of histograms, \<open>sum(components)\<close>: cell by cell, values and variances. The
  histogram library adds histograms of equal axes only.
\<close>

definition hist_add :: "hist \<Rightarrow> hist \<Rightarrow> error + hist" where
  "hist_add h1 h2 =
     (if axes h1 \<noteq> axes h2 then Inl (ValueError ''axes not mergable'')
      else Inr (h1\<lparr>cells := (\<lambda>i. (np_add (fst (cells h1 i)) (fst (cells h2 i)),
                                   np_add (snd (cells h1 i)) (snd (cells h2 i))))\<rparr>))"

fun hist_sum_from :: "hist \<Rightarrow> hist list \<Rightarrow> error + hist" where
  "hist_sum_from acc [] = Inr acc"
| "hist_sum_from acc (h # hs) =
     (case hist_add acc h of Inl e \<Rightarrow> Inl e | Inr s \<Rightarrow> hist_sum_from s hs)"

fun hist_sum :: "hist list \<Rightarrow> error + hist" where
  "hist_sum [] = Inl (TypeError ''the sum of no histogram is the integer 0'')"
| "hist_sum (h # hs) = hist_sum_from h hs"

text \<open>The first and the last edge of an axis, \<open>(edges[0], edges[-1])\<close>.\<close>

definition edge_limits :: "axis \<Rightarrow> error + (npfloat \<times> npfloat)" where
  "edge_limits a =
     (case axis_edges a of
        [] \<Rightarrow> Inl (IndexError ''index 0 is out of bounds'')
      | e # es \<Rightarrow> Inr (e, last (e # es)))"

text \<open>
  \<open>np.nan_to_num(x, copy, nan)\<close>: NaN becomes \<open>nan\<close>, an infinity the largest finite
  number of its sign. The result is the array returned together with the array \<open>x\<close> as it
  is after the call: with \<open>copy\<close> false the replacement is made in place, in \<open>x\<close>.
\<close>

fun nan_to_num :: "npfloat \<Rightarrow> npfloat \<Rightarrow> npfloat" where
  "nan_to_num nanv NaN = nanv"
| "nan_to_num nanv PosInf = Fin float_max"
| "nan_to_num nanv NegInf = Fin (- float_max)"
| "nan_to_num nanv (Fin r) = Fin r"

definition np_nan_to_num :: "npfloat list \<Rightarrow> bool \<Rightarrow> npfloat \<Rightarrow> npfloat list \<times> npfloat list" where
  "np_nan_to_num x copy nanv =
     (let y = map (nan_to_num nanv) x in (y, if copy then x else y))"

text \<open>
  \<open>h.values()\<close> is a view of the storage of \<open>h\<close>: an array written in place changes
  the histogram. \<open>set_values\<close> is the histogram after the array of its values in the
  binning range has become \<open>vs\<close>.
\<close>

definition set_values :: "hist \<Rightarrow> npfloat list \<Rightarrow> hist" where
  "set_values h vs =
     h\<lparr>cells := foldl (\<lambda>c e. c(fst e := (snd e, snd (c (fst e))))) (cells h)
                   (zip (inner_indices (axes h)) vs)\<rparr>"

text \<open>
  \<open>np.nan_to_num(hist.values(), 0)\<close>, lines 267 and 276. The second positional
  parameter of \<open>nan_to_num\<close> is \<open>copy\<close>, so the call passes \<open>copy=0\<close> and leaves
  \<open>nan\<close> at its default \<open>0.0\<close>. The result is the array of weights and the histogram
  after the call.
\<close>

definition values_nan_to_num :: "hist \<Rightarrow> npfloat list \<times> hist" where
  "values_nan_to_num h =
     (case np_nan_to_num (hvalues h) (truthy (PInt 0)) (Fin 0) of
        (out, arr) \<Rightarrow> (out, set_values h arr))"

section \<open>The functions of the modules that are not in the sources\<close>

text \<open>
  \<open>plothist.comparison\<close> and \<open>plothist.plothist_style\<close> are imported by the source and
  are not part of it. What they compute from statistics is a parameter of the model:
  whether a histogram is unweighted, the asymmetrical uncertainties of a histogram, the
  lower and upper uncertainty of each bin of a comparison (which may depend on both
  histograms as a whole, on the kind of comparison and on the two uncertainty options),
  and the font size that \<open>set_fitting_ylabel_fontsize\<close> settles on.
\<close>

record comparison_module =
  is_unweighted :: "hist \<Rightarrow> bool"
  get_asymmetrical_uncertainties :: "hist \<Rightarrow> npfloat list \<times> npfloat list"
  bin_uncertainties :: "string \<Rightarrow> string \<Rightarrow> string \<Rightarrow> hist \<Rightarrow> hist \<Rightarrow> nat \<Rightarrow> npfloat \<times> npfloat"
  ylabel_fontsize :: npfloat

text \<open>
  Modelled from the spec: \<open>_check_binning_consistency\<close> is not in the sources. The spec
  says that the code raises on mismatched binning; the binning of a histogram is the
  edges of its bins, axis by axis, and the check compares every histogram of the list
  with the first.
\<close>

definition binning :: "hist \<Rightarrow> npfloat list list" where
  "binning h = map axis_edges (axes h)"

definition check_binning_consistency :: "hist list \<Rightarrow> unit M" where
  "check_binning_consistency hs =
     (if list_all (\<lambda>h. binning h = binning (hd hs)) hs then ret ()
      else raise (ValueError ''The bins of the histograms must be equal.''))"

text \<open>
  Modelled from the spec: \<open>_check_uncertainty_type\<close> is not in the sources. The spec
  knows two kinds of uncertainty, symmetric and asymmetric; the docstrings of the callers
  name them \<open>"symmetrical"\<close> and \<open>"asymmetrical"\<close>.
\<close>

definition check_uncertainty_type :: "pyval \<Rightarrow> unit M" where
  "check_uncertainty_type t =
     (if t = PStr ''symmetrical'' \<or> t = PStr ''asymmetrical'' then ret ()
      else raise (ValueError ''uncertainty type not valid''))"

text \<open>
  Modelled from the spec: \<open>get_comparison\<close> is not in the sources. The spec calls a
  comparison a quantity computed bin-wise between two histograms and names five kinds;
  the formulas are the ones \<open>plot_comparison\<close> writes on the axis (lines 691 to 733), and
  the efficiency is the ratio of the two contents. The uncertainties of the bins come
  from the parameter \<open>bin_uncertainties\<close>.
\<close>

definition comparison_kinds :: "string list" where
  "comparison_kinds = [''ratio'', ''pull'', ''difference'', ''relative_difference'', ''efficiency'']"

definition comparison_value :: "string \<Rightarrow> npfloat \<times> npfloat \<Rightarrow> npfloat \<times> npfloat \<Rightarrow> npfloat" where
  "comparison_value c b1 b2 =
     (if c = ''ratio'' then np_div (fst b1) (fst b2)
      else if c = ''relative_difference'' then np_div (np_sub (fst b1) (fst b2)) (fst b2)
      else if c = ''pull'' then np_div (np_sub (fst b1) (fst b2)) (np_sqrt (np_add (snd b1) (snd b2)))
      else if c = ''difference'' then np_sub (fst b1) (fst b2)
      else np_div (fst b1) (fst b2))"

definition bins_of :: "hist \<Rightarrow> (npfloat \<times> npfloat) list" where
  "bins_of h = map (cells h) (inner_indices (axes h))"

definition get_comparison ::
  "comparison_module \<Rightarrow> hist \<Rightarrow> hist \<Rightarrow> string \<Rightarrow> string \<Rightarrow> string \<Rightarrow>
   error + (npfloat list \<times> npfloat list \<times> npfloat list)" where
  "get_comparison M h1 h2 c ru ut =
     (if c \<notin> set comparison_kinds then Inl (ValueError ''comparison not available'')
      else
        let vals = map (\<lambda>b. comparison_value c (fst b) (snd b)) (zip (bins_of h1) (bins_of h2));
            us = map (bin_uncertainties M c ru ut h1 h2) [0..<length vals]
        in Inr (vals, map fst us, map snd us))"

text \<open>
  \<open>set_fitting_ylabel_fontsize(ax)\<close> of \<open>plothist_style\<close> works on the axes and returns a
  font size.
\<close>

definition set_fitting_ylabel_fontsize :: "comparison_module \<Rightarrow> obj \<Rightarrow> npfloat M" where
  "set_fitting_ylabel_fontsize M ax =
     seq (emit ax ''plothist_style.set_fitting_ylabel_fontsize'' []) (ret (ylabel_fontsize M))"

section \<open>Calls between the functions of the source\<close>

text \<open>
  A call that forwards a dictionary with \<open>**\<close> to a function of the source: a key of
  the dictionary that names a parameter already given is a TypeError.
\<close>

definition forward_kwargs :: "string list \<Rightarrow> pydict \<Rightarrow> pydict \<Rightarrow> error + pydict" where
  "forward_kwargs given explicit kw =
     (if list_ex (\<lambda>k. k \<in> set given \<or> k \<in> set (map fst explicit)) (map fst kw)
      then Inl (TypeError ''got multiple values for argument'')
      else Inr (explicit @ kw))"

text \<open>
  \<open>np.allclose(a, b, equal_nan=True)\<close> with the default tolerances.
\<close>

fun isclose :: "npfloat \<Rightarrow> npfloat \<Rightarrow> bool" where
  "isclose (Fin a) (Fin b) = (\<bar>a - b\<bar> \<le> 1 / 10 ^ 8 + 1 / 10 ^ 5 * \<bar>b\<bar>)"
| "isclose NaN NaN = True"
| "isclose PosInf PosInf = True"
| "isclose NegInf NegInf = True"
| "isclose _ _ = False"

definition allclose :: "npfloat list \<Rightarrow> npfloat list \<Rightarrow> bool" where
  "allclose xs ys = list_all2 isclose xs ys"

text \<open>Lines 797 to 815: the text between the first two dollar signs on one line.\<close>

fun until_dollar :: "string \<Rightarrow> string option" where
  "until_dollar [] = None"
| "until_dollar (c # cs) =
     (if c = CHR ''$'' then Some []
      else if c = CHR 0x0A then None
      else map_option (Cons c) (until_dollar cs))"

fun search_dollars :: "string \<Rightarrow> string option" where
  "search_dollars [] = None"
| "search_dollars (c # cs) =
     (if c = CHR ''$'' then
        (case until_dollar cs of Some m \<Rightarrow> Some m | None \<Rightarrow> search_dollars cs)
      else search_dollars cs)"

definition get_math_text :: "string \<Rightarrow> string" where
  "get_math_text t = (case search_dollars t of Some m \<Rightarrow> m | None \<Rightarrow> t)"

text \<open>The backslash, for the labels in math text.\<close>

definition bs :: string where
  "bs = [CHR 0x5C]"

section \<open>plot\_hist, plot\_error\_hist, plot\_hist\_uncertainties\<close>

text \<open>
  Lines 247 to 278. \<open>plot_hist\<close> takes one histogram or a list of histograms; the two
  branches of its \<open>isinstance\<close> test are \<open>plot_hist_one\<close> and \<open>plot_hist_list\<close>. Since
  the weights are made by \<open>values_nan_to_num\<close>, which writes into the histograms, the
  result of the model is the argument as it is after the call.
\<close>

datatype hist_arg = One hist | Many "hist list"

definition plot_hist_one :: "hist \<Rightarrow> obj \<Rightarrow> pydict \<Rightarrow> hist M" where
  "plot_hist_one h ax kwargs =
     (let r = values_nan_to_num h in
      bnd (lift (forward_kwargs []
             [(''x'', pyfloats (axis_centers (hd (axes h)))),
              (''bins'', pyfloats (axis_edges (hd (axes h)))),
              (''weights'', pyfloats (fst r))] kwargs)) (\<lambda>a.
      seq (emit ax ''hist'' a) (ret (snd r))))"

definition plot_hist_list :: "hist list \<Rightarrow> obj \<Rightarrow> pydict \<Rightarrow> hist list M" where
  "plot_hist_list hs ax kwargs =
     seq (check_binning_consistency hs)
       (if hs = [] then raise (IndexError ''list index out of range'')
        else
          let rs = map values_nan_to_num hs in
          bnd (lift (forward_kwargs []
                 [(''x'', PList (map (\<lambda>h. pyfloats (axis_centers (hd (axes h)))) hs)),
                  (''bins'', pyfloats (axis_edges (hd (axes (hd hs))))),
                  (''weights'', PList (map (\<lambda>r. pyfloats (fst r)) rs))] kwargs)) (\<lambda>a.
          seq (emit ax ''hist'' a) (ret (map snd rs))))"

definition plot_hist :: "hist_arg \<Rightarrow> obj \<Rightarrow> pydict \<Rightarrow> hist_arg M" where
  "plot_hist hist ax kwargs =
     (case hist of
        One h \<Rightarrow> bnd (plot_hist_one h ax kwargs) (\<lambda>h'. ret (One h'))
      | Many hs \<Rightarrow> bnd (plot_hist_list hs ax kwargs) (\<lambda>hs'. ret (Many hs')))"

definition plot_error_hist :: "comparison_module \<Rightarrow> hist \<Rightarrow> obj \<Rightarrow> pyval \<Rightarrow> pydict \<Rightarrow> unit M" where
  "plot_error_hist M hist ax uncertainty_type kwargs =
     seq (check_uncertainty_type uncertainty_type)
       (let kwargs1 =
              (if uncertainty_type = PStr ''symmetrical''
               then setdefault kwargs ''yerr'' (pyfloats (map np_sqrt (variances hist)))
               else setdefault kwargs ''yerr''
                      (PList [pyfloats (fst (get_asymmetrical_uncertainties M hist)),
                              pyfloats (snd (get_asymmetrical_uncertainties M hist))]));
            kwargs2 = setdefault kwargs1 ''fmt'' (PStr ''.'')
        in bnd (lift (forward_kwargs []
                  [(''x'', pyfloats (axis_centers (hd (axes hist)))),
                   (''y'', pyfloats (hvalues hist))] kwargs2)) (\<lambda>a.
           emit ax ''errorbar'' a))"

definition plot_hist_uncertainties :: "hist \<Rightarrow> obj \<Rightarrow> pydict \<Rightarrow> unit M" where
  "plot_hist_uncertainties hist ax kwargs =
     (let uncertainty = map np_sqrt (variances hist);
          kwargs1 = setdefault kwargs ''edgecolor'' (PStr ''dimgrey'');
          kwargs2 = setdefault kwargs1 ''hatch'' (PStr ''////'');
          kwargs3 = setdefault kwargs2 ''fill'' (PBool False);
          kwargs4 = setdefault kwargs3 ''lw'' (PInt 0)
      in bnd (lift (forward_kwargs []
                [(''x'', pyfloats (axis_centers (hd (axes hist)))),
                 (''bottom'', pyfloats (map (\<lambda>p. np_sub (fst p) (snd p)) (zip (hvalues hist) uncertainty))),
                 (''height'', pyfloats (map (np_mul (Fin 2)) uncertainty)),
                 (''width'', pyfloats (axis_widths (hd (axes hist))))] kwargs4)) (\<lambda>a.
         emit ax ''bar'' a))"

section \<open>plot\_2d\_hist\<close>

text \<open>
  Lines 281 to 326; \<open>colorbar_figure\<close> is lines 312 to 317. The result holds the
  dictionary \<open>pcolormesh_kwargs\<close> as it is after the call, since line 310 writes into
  the dictionary of the caller (or into the default dictionary of the function, which all
  calls share).
\<close>

definition colorbar_figure ::
  "obj option \<Rightarrow> obj option \<Rightarrow> obj option \<Rightarrow> (obj \<times> obj \<times> obj) M" where
  "colorbar_figure fig ax ax_colorbar =
     (if fig = None \<and> ax = None \<and> ax_colorbar = None then
        bnd (subplots 2
               [(''figsize'', PList [PNum (Fin 6), PNum (Fin (9 / 2))]),
                (''ncols'', PInt 2),
                (''gridspec_kw'', PDict [(''width_ratios'', PList [PNum (Fin 4), PNum (Fin (23 / 100))])])])
            (\<lambda>r. ret (fst r, snd r ! 0, snd r ! 1))
      else if fig = None \<or> ax = None \<or> ax_colorbar = None then
        raise (ValueError ''Need to provid fig, ax and ax_colorbar (or None of them).'')
      else ret (the fig, the ax, the ax_colorbar))"

definition plot_2d_hist ::
  "hist \<Rightarrow> obj option \<Rightarrow> obj option \<Rightarrow> obj option \<Rightarrow> pydict \<Rightarrow> pydict \<Rightarrow> bool \<Rightarrow>
   ((obj \<times> obj \<times> obj) \<times> pydict) M" where
  "plot_2d_hist hist fig ax ax_colorbar pcolormesh_kwargs colorbar_kwargs square_ax =
     (let pk = setdefault pcolormesh_kwargs ''edgecolors'' (PStr ''face'') in
      bnd (colorbar_figure fig ax ax_colorbar) (\<lambda>t.
      case t of (fig, ax, ax_colorbar) \<Rightarrow>
      seq (when_do square_ax
             (seq (emit ax ''set_box_aspect'' [(''arg0'', PInt 1)])
                  (emit fig ''subplots_adjust'' [(''wspace'', PInt 0), (''hspace'', PInt 0)])))
     (bnd (lift (forward_kwargs []
             [(''edges'', PList (map (\<lambda>a. pyfloats (axis_edges a)) (axes hist))),
              (''values.T'', pyfloats (hvalues hist))] pk)) (\<lambda>a.
      bnd (emit_new ax ''pcolormesh'' a) (\<lambda>im.
      bnd (lift (forward_kwargs [] [(''arg0'', PObj im), (''cax'', PObj ax_colorbar)] colorbar_kwargs)) (\<lambda>c.
      seq (emit ax ''get_figure.colorbar'' c)
          (ret ((fig, ax, ax_colorbar), pk))))))))"

section \<open>plot\_comparison\<close>

text \<open>
  The parameters of \<open>plot_comparison\<close> after the histograms and the axes, and how a
  call binds them from its keywords: a keyword that is not a parameter goes to
  \<open>plot_hist_kwargs\<close>. The labels and the three options are strings and the limits a
  pair of numbers; a keyword of another type is refused here with a TypeError, where the
  source would fail later, in a function that is not in the sources.
\<close>

record comparison_opts =
  o_xlabel :: pyval
  o_h1_label :: string
  o_h2_label :: string
  o_comparison :: string
  o_comparison_ylabel :: pyval
  o_comparison_ylim :: "(npfloat \<times> npfloat) option"
  o_ratio_uncertainty :: string
  o_hist_1_uncertainty :: string
  o_plot_hist_kwargs :: pydict

definition ebind :: "error + 'a \<Rightarrow> ('a \<Rightarrow> error + 'b) \<Rightarrow> error + 'b" where
  "ebind r f = (case r of Inl e \<Rightarrow> Inl e | Inr x \<Rightarrow> f x)"

fun as_str :: "pyval \<Rightarrow> error + string" where
  "as_str (PStr s) = Inr s"
| "as_str _ = Inl (TypeError ''expected a string'')"

fun as_num :: "pyval \<Rightarrow> npfloat option" where
  "as_num (PNum x) = Some x"
| "as_num (PInt n) = Some (Fin (real_of_int n))"
| "as_num _ = None"

fun as_ylim :: "pyval \<Rightarrow> error + (npfloat \<times> npfloat) option" where
  "as_ylim PNone = Inr None"
| "as_ylim (PList [a, b]) =
     (case (as_num a, as_num b) of
        (Some x, Some y) \<Rightarrow> Inr (Some (x, y))
      | _ \<Rightarrow> Inl (TypeError ''expected a pair of numbers''))"
| "as_ylim _ = Inl (TypeError ''expected a pair of numbers'')"

definition comparison_parameters :: "string list" where
  "comparison_parameters =
     [''xlabel'', ''h1_label'', ''h2_label'', ''comparison'', ''comparison_ylabel'',
      ''comparison_ylim'', ''ratio_uncertainty'', ''hist_1_uncertainty'']"

definition bind_plot_comparison :: "pydict \<Rightarrow> error + comparison_opts" where
  "bind_plot_comparison kw =
     ebind (as_str (dict_get kw ''h1_label'' (PStr ''h1''))) (\<lambda>h1.
     ebind (as_str (dict_get kw ''h2_label'' (PStr ''h2''))) (\<lambda>h2.
     ebind (as_str (dict_get kw ''comparison'' (PStr ''ratio''))) (\<lambda>c.
     ebind (as_ylim (dict_get kw ''comparison_ylim'' PNone)) (\<lambda>ylim.
     ebind (as_str (dict_get kw ''ratio_uncertainty'' (PStr ''uncorrelated''))) (\<lambda>ru.
     ebind (as_str (dict_get kw ''hist_1_uncertainty'' (PStr ''symmetrical''))) (\<lambda>ut.
     Inr \<lparr>o_xlabel = dict_get kw ''xlabel'' (PStr ''''),
          o_h1_label = h1, o_h2_label = h2, o_comparison = c,
          o_comparison_ylabel = dict_get kw ''comparison_ylabel'' PNone,
          o_comparison_ylim = ylim, o_ratio_uncertainty = ru, o_hist_1_uncertainty = ut,
          o_plot_hist_kwargs = filter (\<lambda>e. fst e \<notin> set comparison_parameters) kw\<rparr>))))))"

text \<open>Lines 681 to 733: the reference line, the label and the band of the second histogram.\<close>

definition dashed_line :: pydict where
  "dashed_line = [(''ls'', PStr ''--''), (''lw'', PNum (Fin 1)), (''color'', PStr ''black'')]"

definition ratio_label :: "string \<Rightarrow> string \<Rightarrow> string" where
  "ratio_label h1 h2 = ''$'' @ bs @ ''frac{'' @ h1 @ ''}{'' @ h2 @ ''}$''"

definition relative_difference_label :: "string \<Rightarrow> string \<Rightarrow> string" where
  "relative_difference_label h1 h2 =
     ''$'' @ bs @ ''frac{'' @ h1 @ '' - '' @ h2 @ ''}{'' @ h2 @ ''}$''"

definition pull_label :: "string \<Rightarrow> string \<Rightarrow> string" where
  "pull_label h1 h2 =
     ''$'' @ bs @ ''frac{ '' @ h1 @ '' - '' @ h2 @ '' }{ '' @ bs @ ''sqrt{'' @ bs @ ''sigma^2_{'' @ h1
     @ ''} + '' @ bs @ ''sigma^2_{'' @ h2 @ ''}} } $''"

definition difference_label :: "string \<Rightarrow> string \<Rightarrow> string" where
  "difference_label h1 h2 = ''$'' @ h1 @ '' - '' @ h2 @ ''$''"

definition h2_scaled_uncertainties :: "hist \<Rightarrow> npfloat list" where
  "h2_scaled_uncertainties hist_2 =
     map (\<lambda>b. if \<not> np_eq (fst b) (Fin 0) then np_div (np_sqrt (snd b)) (fst b) else NaN)
         (bins_of hist_2)"

definition split_band :: "hist \<Rightarrow> obj \<Rightarrow> npfloat \<Rightarrow> npfloat \<times> npfloat \<Rightarrow> unit M" where
  "split_band hist_2 ax bottom_shift ylim =
     emit ax ''bar''
       [(''x'', pyfloats (axis_centers (hd (axes hist_2)))),
        (''bottom'', pyfloats (map (\<lambda>u. nan_to_num (fst ylim) (np_sub bottom_shift u))
                                   (h2_scaled_uncertainties hist_2))),
        (''height'', pyfloats (map (\<lambda>u. nan_to_num (np_sub (snd ylim) (fst ylim)) (np_mul (Fin 2) u))
                                   (h2_scaled_uncertainties hist_2))),
        (''width'', pyfloats (axis_widths (hd (axes hist_2)))),
        (''edgecolor'', PStr ''dimgrey''), (''hatch'', PStr ''////''),
        (''fill'', PBool False), (''lw'', PInt 0)]"

definition comparison_decoration ::
  "hist \<Rightarrow> obj \<Rightarrow> string \<Rightarrow> string \<Rightarrow> (npfloat \<times> npfloat) option \<Rightarrow> string \<Rightarrow> string \<Rightarrow>
   (npfloat \<times> npfloat) option M" where
  "comparison_decoration hist_2 ax c ru ylim h1 h2 =
     (if c \<in> set [''ratio'', ''relative_difference''] then
        (let ylim1 = (case ylim of
                        None \<Rightarrow> (if c = ''relative_difference'' then (Fin (- 1), Fin 1)
                                 else (Fin 0, Fin 2))
                      | Some l \<Rightarrow> l);
             bottom_shift = (if c = ''relative_difference'' then 0 else 1) in
         seq (emit ax ''axhline'' ((''arg0'', PInt bottom_shift) # dashed_line))
        (seq (emit ax ''set_ylabel''
                [(''arg0'', PStr (if c = ''relative_difference'' then relative_difference_label h1 h2
                                  else ratio_label h1 h2))])
        (seq (when_do (ru = ''split'')
                (split_band hist_2 ax (Fin (real_of_int bottom_shift)) ylim1))
             (ret (Some ylim1)))))
      else if c = ''pull'' then
        (let ylim1 = (case ylim of None \<Rightarrow> (Fin (- 5), Fin 5) | Some l \<Rightarrow> l) in
         seq (emit ax ''axhline'' ((''arg0'', PInt 0) # dashed_line))
        (seq (emit ax ''set_ylabel'' [(''arg0'', PStr (pull_label h1 h2))])
             (ret (Some ylim1))))
      else if c = ''difference'' then
         seq (emit ax ''axhline'' ((''arg0'', PInt 0) # dashed_line))
        (seq (emit ax ''set_ylabel'' [(''arg0'', PStr (difference_label h1 h2))])
             (ret ylim))
      else ret ylim)"

text \<open>
  Lines 661 to 671: the histogram that is plotted. Its values are the values of the
  comparison; its variances are the squares of the uncertainties when the lower and the
  upper ones agree, and zero otherwise, when the two go to the plotting call as
  \<open>yerr\<close>.
\<close>

definition comparison_hist ::
  "hist \<Rightarrow> npfloat list \<times> npfloat list \<times> npfloat list \<Rightarrow> pydict \<Rightarrow> error + (hist \<times> pydict)" where
  "comparison_hist hist_2 r kw =
     (case r of (comparison_values, lower_uncertainties, upper_uncertainties) \<Rightarrow>
        if allclose lower_uncertainties upper_uncertainties then
          ebind (weight_hist (hd (axes hist_2)) comparison_values
                   (map (\<lambda>u. np_mul u u) lower_uncertainties)) (\<lambda>h. Inr (h, kw))
        else
          ebind (weight_hist (hd (axes hist_2)) comparison_values
                   (map (\<lambda>_. Fin 0) comparison_values)) (\<lambda>h.
          Inr (h, setdefault kw ''yerr''
                    (PList [pyfloats lower_uncertainties, pyfloats upper_uncertainties]))))"

text \<open>Lines 673 to 679: the pull is drawn by \<open>plot_hist\<close>, the others by \<open>plot_error_hist\<close>.\<close>

definition draw_comparison ::
  "comparison_module \<Rightarrow> string \<Rightarrow> hist \<Rightarrow> obj \<Rightarrow> pydict \<Rightarrow> unit M" where
  "draw_comparison M c hist_comparison ax kw =
     (if c = ''pull'' then
        bnd (lift (forward_kwargs [''hist'', ''ax''] []
               (setdefault (setdefault kw ''histtype'' (PStr ''stepfilled''))
                  ''color'' (PStr ''darkgrey'')))) (\<lambda>k.
        bnd (plot_hist_one hist_comparison ax k) (\<lambda>_. ret ()))
      else
        bnd (lift (forward_kwargs [''hist'', ''ax''] []
               (setdefault kw ''color'' (PStr ''black'')))) (\<lambda>k.
        plot_error_hist M hist_comparison ax
          (dict_get k ''uncertainty_type'' (PStr ''symmetrical''))
          (filter (\<lambda>e. fst e \<noteq> ''uncertainty_type'') k)))"

text \<open>Lines 681 to 743: the decoration, the limits and the labels of the axes.\<close>

definition finish_comparison :: "hist \<Rightarrow> hist \<Rightarrow> obj \<Rightarrow> comparison_opts \<Rightarrow> obj M" where
  "finish_comparison hist_1 hist_2 ax opts =
     bnd (comparison_decoration hist_2 ax (o_comparison opts) (o_ratio_uncertainty opts)
            (o_comparison_ylim opts) (get_math_text (o_h1_label opts))
            (get_math_text (o_h2_label opts))) (\<lambda>ylim.
     bnd (lift (edge_limits (hd (axes hist_1)))) (\<lambda>xlim.
     seq (emit ax ''set_xlim'' [(''arg0'', pytuple xlim)])
    (seq (emit ax ''set_xlabel'' [(''arg0'', o_xlabel opts)])
    (seq (when_do (ylim \<noteq> None) (emit ax ''set_ylim'' [(''arg0'', pytuple (the ylim))]))
    (seq (when_do (o_comparison_ylabel opts \<noteq> PNone)
            (emit ax ''set_ylabel'' [(''arg0'', o_comparison_ylabel opts)]))
         (ret ax))))))"

text \<open>Lines 601 to 743.\<close>

definition plot_comparison ::
  "comparison_module \<Rightarrow> hist \<Rightarrow> hist \<Rightarrow> obj \<Rightarrow> comparison_opts \<Rightarrow> obj M" where
  "plot_comparison M hist_1 hist_2 ax opts =
     seq (check_binning_consistency [hist_1, hist_2])
    (bnd (lift (get_comparison M hist_1 hist_2 (o_comparison opts) (o_ratio_uncertainty opts)
                  (o_hist_1_uncertainty opts))) (\<lambda>r.
     bnd (lift (comparison_hist hist_2 r (o_plot_hist_kwargs opts))) (\<lambda>hk.
     seq (draw_comparison M (o_comparison opts) (fst hk) ax (snd hk))
         (finish_comparison hist_1 hist_2 ax opts))))"

section \<open>compare\_two\_hist\<close>

text \<open>
  The three places where the source takes a figure with two axes or makes one
  (lines 570 to 575, 1258 to 1263).
\<close>

definition comparison_figure ::
  "obj option \<Rightarrow> obj option \<Rightarrow> obj option \<Rightarrow> (obj \<times> obj \<times> obj) M" where
  "comparison_figure fig ax_main ax_comparison =
     (if fig = None \<and> ax_main = None \<and> ax_comparison = None then
        bnd create_comparison_figure (\<lambda>r. ret (fst r, snd r ! 0, snd r ! 1))
      else if fig = None \<or> ax_main = None \<or> ax_comparison = None then
        raise (ValueError ''Need to provid fig, ax_main and ax_comparison (or none of them).'')
      else ret (the fig, the ax_main, the ax_comparison))"

text \<open>Lines 515 to 598.\<close>

definition compare_two_hist ::
  "comparison_module \<Rightarrow> hist \<Rightarrow> hist \<Rightarrow> pyval \<Rightarrow> pyval \<Rightarrow> string \<Rightarrow> string \<Rightarrow>
   obj option \<Rightarrow> obj option \<Rightarrow> obj option \<Rightarrow> pydict \<Rightarrow> (obj \<times> obj \<times> obj) M" where
  "compare_two_hist M hist_1 hist_2 xl yl h1l h2l fig ax_main ax_comparison comparison_kwargs =
     seq (check_binning_consistency [hist_1, hist_2])
    (bnd (comparison_figure fig ax_main ax_comparison) (\<lambda>t.
     case t of (fig, ax_main, ax_comparison) \<Rightarrow>
     bnd (lift (edge_limits (hd (axes hist_1)))) (\<lambda>xlim.
     bnd (plot_hist_one hist_1 ax_main [(''label'', PStr h1l), (''histtype'', PStr ''step'')]) (\<lambda>hist_1.
     bnd (plot_hist_one hist_2 ax_main [(''label'', PStr h2l), (''histtype'', PStr ''step'')]) (\<lambda>hist_2.
     seq (emit ax_main ''set_xlim'' [(''arg0'', pytuple xlim)])
    (seq (emit ax_main ''set_ylabel'' [(''arg0'', yl)])
    (seq (emit ax_main ''legend'' [])
    (seq (emit ax_main ''xaxis.set_ticklabels'' [(''arg0'', PList [])])
    (bnd (lift (ebind (forward_kwargs [''hist_1'', ''hist_2'', ''ax'']
                         [(''xlabel'', xl), (''h1_label'', PStr h1l), (''h2_label'', PStr h2l)]
                         comparison_kwargs) bind_plot_comparison)) (\<lambda>opts.
     bnd (plot_comparison M hist_1 hist_2 ax_comparison opts) (\<lambda>_.
     seq (emit fig ''align_ylabels'' [])
         (ret (fig, ax_main, ax_comparison)))))))))))))"

section \<open>plot\_model\<close>

text \<open>
  The components of a model with their labels and colours, as \<open>plot_model\<close> and
  \<open>compare_data_model\<close> take them.
\<close>

record model_args =
  stacked_components :: "hist list"
  stacked_labels :: pyval
  stacked_colors :: pyval
  unstacked_components :: "hist list"
  unstacked_labels :: pyval
  unstacked_colors :: pyval

definition flatten_all :: "bool \<Rightarrow> hist list \<Rightarrow> error + hist list" where
  "flatten_all flatten hs = (if flatten then map_M flatten_2d_hist hs else Inr hs)"

text \<open>Lines 1115 to 1118.\<close>

definition model_figure :: "obj option \<Rightarrow> obj option \<Rightarrow> (obj \<times> obj) M" where
  "model_figure fig ax =
     (if fig = None \<and> ax = None then bnd (subplots 1 []) (\<lambda>r. ret (fst r, snd r ! 0))
      else if fig = None \<or> ax = None then
        raise (ValueError ''Need to provid both fig and ax (or none).'')
      else ret (the fig, the ax))"

text \<open>
  Lines 1133 to 1150: the components that are not stacked, and their sum. Line 1144 takes
  the key \<open>show\<close> out of the dictionary \<open>sum_kwargs\<close> of the caller; the result holds the
  histograms and the dictionary as they are afterwards.
\<close>

definition plot_unstacked ::
  "hist list \<Rightarrow> hist list \<Rightarrow> model_args \<Rightarrow> pydict \<Rightarrow> obj \<Rightarrow> (hist list \<times> pydict) M" where
  "plot_unstacked stacked unstacked ma sum_kwargs ax =
     (if unstacked \<noteq> [] then
        bnd (plot_hist_list unstacked ax
               [(''color'', unstacked_colors ma), (''label'', unstacked_labels ma),
                (''stacked'', PBool False), (''histtype'', PStr ''step'')]) (\<lambda>unstacked.
        let p = dict_pop sum_kwargs ''show'' (PBool True) in
        if truthy (fst p) then
          bnd (lift (hist_sum (stacked @ unstacked))) (\<lambda>s.
          bnd (lift (forward_kwargs [''hist'', ''ax''] [(''histtype'', PStr ''step'')] (snd p))) (\<lambda>k.
          bnd (plot_hist_one s ax k) (\<lambda>_. ret (unstacked, snd p))))
        else ret (unstacked, snd p))
      else ret (unstacked, sum_kwargs))"

text \<open>
  Lines 1044 to 1159. The result holds, next to the figure and the axes, the dictionary
  \<open>sum_kwargs\<close> as the call leaves it.
\<close>

definition plot_model ::
  "comparison_module \<Rightarrow> model_args \<Rightarrow> pyval \<Rightarrow> pyval \<Rightarrow> pydict \<Rightarrow> bool \<Rightarrow> int \<Rightarrow>
   obj option \<Rightarrow> obj option \<Rightarrow> ((obj \<times> obj) \<times> pydict) M" where
  "plot_model M ma xl yl sum_kwargs flatten leg_ncol fig ax =
     bnd (lift (flatten_all flatten (stacked_components ma))) (\<lambda>stacked.
     bnd (lift (flatten_all flatten (unstacked_components ma))) (\<lambda>unstacked.
     if stacked @ unstacked = [] then
       raise (ValueError ''Need to provide at least one model component.'')
     else
       seq (check_binning_consistency (stacked @ unstacked))
      (bnd (model_figure fig ax) (\<lambda>t.
       case t of (fig, ax) \<Rightarrow>
       bnd (if stacked \<noteq> [] then
              plot_hist_list stacked ax
                [(''stacked'', PBool True), (''edgecolor'', PStr ''black''),
                 (''histtype'', PStr ''stepfilled''), (''linewidth'', PNum (Fin (1 / 2))),
                 (''color'', stacked_colors ma), (''label'', stacked_labels ma)]
            else ret stacked) (\<lambda>stacked.
       bnd (plot_unstacked stacked unstacked ma sum_kwargs ax) (\<lambda>u.
       bnd (lift (edge_limits (hd (axes (hd (stacked @ fst u)))))) (\<lambda>xlim.
       seq (emit ax ''set_xlim'' [(''arg0'', pytuple xlim)])
      (seq (emit ax ''set_xlabel'' [(''arg0'', xl)])
      (seq (emit ax ''set_ylabel'' [(''arg0'', yl)])
      (bnd (set_fitting_ylabel_fontsize M ax) (\<lambda>_.
       seq (emit ax ''legend'' [(''ncol'', PInt leg_ncol)])
           (ret ((fig, ax), snd u)))))))))))))"

section \<open>compare\_data\_model\<close>

text \<open>Lines 1282 and 1283: the variances of the bins of the model set to zero.\<close>

definition zero_variances :: "hist \<Rightarrow> hist" where
  "zero_variances h =
     h\<lparr>cells := (\<lambda>i. if i \<in> set (inner_indices (axes h)) then (fst (cells h i), Fin 0)
                      else cells h i)\<rparr>"

text \<open>Lines 1285 to 1291: the kind of uncertainty of the data.\<close>

definition data_uncertainty_type :: "comparison_module \<Rightarrow> hist \<Rightarrow> string" where
  "data_uncertainty_type M data_hist =
     (if is_unweighted M data_hist then ''asymmetrical'' else ''symmetrical'')"

text \<open>What an f-string writes for a value: the string itself; other values are not modelled.\<close>

fun py_str :: "pyval \<Rightarrow> string" where
  "py_str (PStr s) = s"
| "py_str _ = ''<object>''"

definition pull_label_no_model_uncertainty :: "string \<Rightarrow> string \<Rightarrow> string" where
  "pull_label_no_model_uncertainty h1 h2 =
     ''$'' @ bs @ ''frac{ '' @ h1 @ '' - '' @ h2 @ '' }{ '' @ bs @ ''sigma_{'' @ h1 @ ''} } $''"

text \<open>Lines 1303 to 1310.\<close>

definition model_uncertainty_band ::
  "bool \<Rightarrow> hist \<Rightarrow> obj \<Rightarrow> string \<Rightarrow> pydict \<Rightarrow> pydict M" where
  "model_uncertainty_band model_uncertainty model_hist ax_main model_uncertainty_label ck =
     (if model_uncertainty then
        seq (plot_hist_uncertainties model_hist ax_main [(''label'', PStr model_uncertainty_label)])
            (ret ck)
      else if dict_get ck ''comparison'' PNone = PStr ''pull'' then
        ret (setdefault ck ''comparison_ylabel''
               (PStr (pull_label_no_model_uncertainty (py_str (dict_get ck ''h1_label'' PNone))
                        (py_str (dict_get ck ''h2_label'' PNone)))))
      else ret ck)"

text \<open>
  Lines 1162 to 1328. The result holds, next to the figure and the axes, the dictionary
  \<open>model_sum_kwargs\<close> as the call leaves it.
\<close>

definition compare_data_model ::
  "comparison_module \<Rightarrow> hist \<Rightarrow> model_args \<Rightarrow> pyval \<Rightarrow> pyval \<Rightarrow> string \<Rightarrow> pydict \<Rightarrow> bool \<Rightarrow>
   bool \<Rightarrow> string \<Rightarrow> obj option \<Rightarrow> obj option \<Rightarrow> obj option \<Rightarrow> pydict \<Rightarrow>
   ((obj \<times> obj \<times> obj) \<times> pydict) M" where
  "compare_data_model M data_hist ma xl yl data_label model_sum_kwargs flatten
     model_uncertainty model_uncertainty_label fig ax_main ax_comparison comparison_kwargs =
     (let ck = setdefault (setdefault (setdefault (setdefault comparison_kwargs
                 ''h1_label'' (PStr data_label)) ''h2_label'' (PStr ''Pred.''))
                 ''comparison'' (PStr ''ratio'')) ''ratio_uncertainty'' (PStr ''split'') in
      bnd (lift (if flatten then flatten_2d_hist data_hist else Inr data_hist)) (\<lambda>data_hist.
      bnd (lift (flatten_all flatten (stacked_components ma))) (\<lambda>stacked.
      bnd (lift (flatten_all flatten (unstacked_components ma))) (\<lambda>unstacked.
      if stacked @ unstacked = [] then
        raise (ValueError ''Need to provide at least one model component.'')
      else
        seq (check_binning_consistency ((stacked @ unstacked) @ [data_hist]))
       (bnd (comparison_figure fig ax_main ax_comparison) (\<lambda>t.
        case t of (fig, ax_main, ax_comparison) \<Rightarrow>
        bnd (lift (hist_sum (stacked @ unstacked))) (\<lambda>model_hist.
        bnd (plot_model M (ma\<lparr>stacked_components := stacked, unstacked_components := unstacked\<rparr>)
               PNone yl model_sum_kwargs False 1 (Some fig) (Some ax_main)) (\<lambda>pm.
        let model_hist = (if \<not> model_uncertainty then zero_variances model_hist else model_hist) in
        seq (plot_error_hist M data_hist ax_main (PStr (data_uncertainty_type M data_hist))
               [(''color'', PStr ''black''), (''label'', PStr data_label)])
       (seq (emit ax_main ''xaxis.set_ticklabels'' [(''arg0'', PList [])])
       (bnd (model_uncertainty_band model_uncertainty model_hist ax_main model_uncertainty_label ck) (\<lambda>ck.
        seq (emit ax_main ''legend'' [])
       (bnd (lift (ebind (forward_kwargs [''hist_1'', ''hist_2'', ''ax'']
                            [(''xlabel'', xl),
                             (''hist_1_uncertainty'', PStr (data_uncertainty_type M data_hist))] ck)
                     bind_plot_comparison)) (\<lambda>opts.
        bnd (plot_comparison M data_hist model_hist ax_comparison opts) (\<lambda>_.
        bnd (set_fitting_ylabel_fontsize M ax_main) (\<lambda>ylabel_fontsize.
        seq (emit ax_comparison ''get_yaxis.get_label.set_size'' [(''arg0'', PNum ylabel_fontsize)])
       (seq (emit fig ''align_ylabels'' [])
            (ret ((fig, ax_main, ax_comparison), snd pm))))))))))))))))))"

section \<open>plot\_mc and compare\_data\_mc\<close>

text \<open>Lines 878 to 889 and 998 to 1009.\<close>

definition mc_model :: "bool \<Rightarrow> hist list \<Rightarrow> pyval \<Rightarrow> pyval \<Rightarrow> model_args" where
  "mc_model stacked mc_hist_list mc_labels mc_colors =
     (if stacked then
        \<lparr>stacked_components = mc_hist_list, stacked_labels = mc_labels, stacked_colors = mc_colors,
         unstacked_components = [], unstacked_labels = PNone, unstacked_colors = PNone\<rparr>
      else
        \<lparr>stacked_components = [], stacked_labels = PNone, stacked_colors = PNone,
         unstacked_components = mc_hist_list, unstacked_labels = mc_labels,
         unstacked_colors = mc_colors\<rparr>)"

definition sum_mc_kwargs :: pydict where
  "sum_mc_kwargs = [(''show'', PBool True), (''label'', PStr ''Sum(MC)''), (''color'', PStr ''navy'')]"

text \<open>Lines 902 to 912 and 1027 to 1037.\<close>

definition plot_signal :: "hist option \<Rightarrow> bool \<Rightarrow> obj \<Rightarrow> pyval \<Rightarrow> pyval \<Rightarrow> unit M" where
  "plot_signal signal_hist flatten ax signal_color signal_label =
     (case signal_hist of
        None \<Rightarrow> ret ()
      | Some s \<Rightarrow>
          bnd (lift (if flatten then flatten_2d_hist s else Inr s)) (\<lambda>s.
          bnd (plot_hist_one s ax
                 [(''stacked'', PBool False), (''color'', signal_color), (''label'', signal_label),
                  (''histtype'', PStr ''step'')]) (\<lambda>_. ret ())))"

text \<open>Lines 818 to 914.\<close>

definition plot_mc ::
  "comparison_module \<Rightarrow> hist list \<Rightarrow> hist option \<Rightarrow> pyval \<Rightarrow> pyval \<Rightarrow> pyval \<Rightarrow> pyval \<Rightarrow>
   pyval \<Rightarrow> pyval \<Rightarrow> obj option \<Rightarrow> obj option \<Rightarrow> bool \<Rightarrow> bool \<Rightarrow> int \<Rightarrow> (obj \<times> obj) M" where
  "plot_mc M mc_hist_list signal_hist xl yl mc_labels mc_colors signal_label signal_color
     fig ax flatten stacked leg_ncol =
     seq (check_binning_consistency
            (mc_hist_list @ (case signal_hist of None \<Rightarrow> [] | Some s \<Rightarrow> [s])))
    (bnd (plot_model M (mc_model stacked mc_hist_list mc_labels mc_colors) xl yl sum_mc_kwargs
            flatten leg_ncol fig ax) (\<lambda>pm.
     seq (plot_signal signal_hist flatten (snd (fst pm)) signal_color signal_label)
         (ret (fst pm))))"



text \<open>
  Small histograms and a stand-in for the missing modules, for the examples below.
\<close>

definition unit_hist :: hist where
  "unit_hist = \<lparr>axes = [Regular 1 (Fin 0) (Fin 1)], storage = Weight, cells = (\<lambda>_. (Fin 1, Fin 1))\<rparr>"

definition module0 :: comparison_module where
  "module0 =
     \<lparr>is_unweighted = (\<lambda>_. False),
      get_asymmetrical_uncertainties = (\<lambda>h. (map (\<lambda>_. Fin 1) (hvalues h), map (\<lambda>_. Fin 2) (hvalues h))),
      bin_uncertainties = (\<lambda>_ _ _ _ _ _. (Fin 0, Fin 0)),
      ylabel_fontsize = Fin 10\<rparr>"

definition nan_hist :: hist where
  "nan_hist =
     \<lparr>axes = [Regular 2 (Fin 0) (Fin 2)], storage = Weight,
      cells = (\<lambda>i. if i = [0] then (NaN, Fin 0) else (Fin 1, Fin 1))\<rparr>"


definition unstacked_model :: model_args where
  "unstacked_model =
     \<lparr>stacked_components = [], stacked_labels = PNone, stacked_colors = PNone,
      unstacked_components = [unit_hist], unstacked_labels = PNone, unstacked_colors = PNone\<rparr>"

definition hidden_sum :: pydict where
  "hidden_sum = [(''show'', PBool False), (''label'', PStr ''Sum''), (''color'', PStr ''navy'')]"

text \<open>
  Two histograms of two axes with different binnings and the same number of bins:
  one bin by two bins, and two bins by one bin.
\<close>

definition grid_a :: hist where
  "grid_a =
     \<lparr>axes = [Regular 1 (Fin 0) (Fin 1), Regular 2 (Fin 0) (Fin 1)], storage = Weight,
      cells = (\<lambda>_. (Fin 1, Fin 1))\<rparr>"

definition grid_b :: hist where
  "grid_b =
     \<lparr>axes = [Regular 2 (Fin 0) (Fin 1), Regular 1 (Fin 0) (Fin 1)], storage = Weight,
      cells = (\<lambda>_. (Fin 1, Fin 1))\<rparr>"

definition grid_model :: model_args where
  "grid_model =
     \<lparr>stacked_components = [grid_a, grid_b], stacked_labels = PNone, stacked_colors = PNone,
      unstacked_components = [], unstacked_labels = PNone, unstacked_colors = PNone\<rparr>"


text \<open>
  What a call adds to the record of the plotting library: \<open>extends w w'\<close> when the calls
  of \<open>w'\<close> start with the calls of \<open>w\<close>, and \<open>new_calls w w'\<close> for the calls
  that came after. \<open>makes_figure w w'\<close>: the first of the new calls is \<open>plt.subplots\<close>,
  which makes a figure and axes.
\<close>

definition extends :: "world \<Rightarrow> world \<Rightarrow> bool" where
  "extends w w' = (take (length (calls w)) (calls w') = calls w \<and> fresh w \<le> fresh w')"

definition new_calls :: "world \<Rightarrow> world \<Rightarrow> call list" where
  "new_calls w w' = drop (length (calls w)) (calls w')"

definition makes_figure :: "world \<Rightarrow> world \<Rightarrow> bool" where
  "makes_figure w w' =
     (extends w w' \<and> fresh w < fresh w' \<and>
      (case new_calls w w' of [] \<Rightarrow> False | c # _ \<Rightarrow> receiver c = Plt \<and> meth c = ''subplots''))"

definition grows :: "'a M \<Rightarrow> bool" where
  "grows m = (\<forall>w. extends w (snd (m w)))"


text \<open>Histograms of one binning: what the check of the binning accepts.\<close>

definition consistent_binning :: "hist list \<Rightarrow> bool" where
  "consistent_binning hs = list_all (\<lambda>h. binning h = binning (hd hs)) hs"

text \<open>
  \<open>sure m P\<close>: from every state, \<open>m\<close> returns without an exception, with a result that
  satisfies \<open>P\<close>, and only adds to the record of calls.
\<close>

definition sure :: "'a M \<Rightarrow> ('a \<Rightarrow> bool) \<Rightarrow> bool" where
  "sure m P = (\<forall>w. \<exists>x w'. m w = (Inr x, w') \<and> P x \<and> extends w w')"




text \<open>
  \<open>yields m R\<close>: whenever \<open>m\<close> returns without an exception, its result satisfies \<open>R\<close>.
  \<open>draws m G\<close>: whenever \<open>m\<close> returns without an exception, it has only added to the
  record of calls, and among the calls it added there is one that, with the result,
  satisfies \<open>G\<close>.
\<close>

definition yields :: "'a M \<Rightarrow> ('a \<Rightarrow> bool) \<Rightarrow> bool" where
  "yields m R = (\<forall>w x w'. m w = (Inr x, w') \<longrightarrow> R x)"



text \<open>The state before anything was plotted.\<close>

definition world0 :: world where
  "world0 = \<lparr>calls = [], warnings = [], fresh = 0\<rparr>"


section \<open>Properties of create\_axis\<close>

lemma np_lt_trans: "np_lt x y \<Longrightarrow> np_lt y z \<Longrightarrow> np_lt x z"
  by (cases x; cases y; cases z; simp)






lemma create_axis_NBins:
  "create_axis data (NBins n) rng w =
     (case resolve_range data rng of
        Inl e \<Rightarrow> (Inl e, w)
      | Inr r \<Rightarrow> (Inr (Regular n (fst (expand_range r)) (snd (expand_range r))), w))"
  by (cases "expand_range (projr (resolve_range data rng))")
     (auto simp: create_axis_def bnd_def lift_def split: sum.splits prod.splits)

text \<open>
  Claim C4. With an integer number of bins, \<open>create_axis\<close> raises ValueError when the
  explicit range, once \<open>"min"\<close> and \<open>"max"\<close> are resolved on the data, has its minimum
  above its maximum or an end that is not finite; and it raises ValueError when no range
  is given and the range found in the (non-empty) data is not finite. The state is left
  as it was.
\<close>

theorem create_axis_invalid_range:
  "(resolve_min data r0 = Inr x_min \<and> resolve_max data r1 = Inr x_max \<and>
      (np_gt x_min x_max \<or> \<not> (np_isfinite x_min \<and> np_isfinite x_max))
      \<longrightarrow> (\<exists>m. create_axis data (NBins n) (Some (r0, r1)) w = (Inl (ValueError m), w)))
   \<and> (data \<noteq> [] \<and> py_min data = Inr x_min \<and> py_max data = Inr x_max \<and>
      \<not> (np_isfinite x_min \<and> np_isfinite x_max)
      \<longrightarrow> (\<exists>m. create_axis data (NBins n) None w = (Inl (ValueError m), w)))"
  by (auto simp: create_axis_NBins resolve_range_def)

theorem create_axis_invalid_range_witness:
  "resolve_min [] (Given (Fin 2)) = Inr (Fin 2) \<and> resolve_max [] (Given (Fin 1)) = Inr (Fin 1)
   \<and> np_gt (Fin 2) (Fin 1)
   \<and> (\<exists>m. create_axis [] (NBins 10) (Some (Given (Fin 2), Given (Fin 1))) world0
          = (Inl (ValueError m), world0))
   \<and> [Fin 1, PosInf] \<noteq> [] \<and> py_min [Fin 1, PosInf] = Inr (Fin 1) \<and> py_max [Fin 1, PosInf] = Inr PosInf
   \<and> \<not> (np_isfinite (Fin 1) \<and> np_isfinite PosInf)
   \<and> (\<exists>m. create_axis [Fin 1, PosInf] (NBins 10) None world0
          = (Inl (ValueError m), world0))"
  using create_axis_invalid_range [of "[]" "Given (Fin 2)" "Fin 2" "Given (Fin 1)" "Fin 1" 10
      "world0"]
    create_axis_invalid_range [of "[Fin 1, PosInf]" _ "Fin 1" _ "PosInf" 10
      "world0"]
  by (simp add: np_gt_def)



section \<open>Properties of make\_hist and make\_2d\_hist\<close>

lemma np_add_commute: "np_add x y = np_add y x"
  by (cases x; cases y; simp)

lemma np_add_assoc: "np_add (np_add x y) z = np_add x (np_add y z)"
  by (cases x; cases y; cases z; simp)

lemma np_add_zero_left: "np_add (Fin 0) x = x"
  by (cases x) simp_all

lemma np_add_zero_right: "np_add x (Fin 0) = x"
  by (cases x) simp_all

lemma np_sum_zeros: "np_sum (map (\<lambda>_. Fin 0) xs) = Fin 0"
  by (induction xs) simp_all

lemma np_sum_upd:
  assumes "distinct js"
  shows "np_sum (map (\<lambda>i. fst ((f(j := (np_add (fst (f j)) dv, v))) i)) js) =
         np_add (np_sum (map (\<lambda>i. fst (f i)) js)) (if j \<in> set js then dv else Fin 0)"
  using assms
proof (induction js)
  case Nil
  then show ?case by simp
next
  case (Cons a js)
  show ?case
  proof (cases "a = j")
    case True
    with Cons.prems have nin: "j \<notin> set js" by simp
    then have same: "map (\<lambda>i. fst (if i = j then (np_add (fst (f j)) dv, v) else f i)) js =
        map (\<lambda>i. fst (f i)) js"
      by (intro map_cong) auto
    from True nin show ?thesis
      by (simp add: same np_add_assoc np_add_commute [of dv])
  next
    case False
    with Cons show ?thesis
      by (simp add: np_add_assoc)
  qed
qed

lemma axes_fill_step: "axes (fill_step h e) = axes h"
  by (cases e) (auto simp: fill_step_def Let_def split: prod.splits)

lemma axes_foldl_fill_step: "axes (foldl fill_step h es) = axes h"
  by (induction es arbitrary: h) (simp_all add: axes_fill_step)

lemma fill_step_sum:
  assumes "distinct js"
  shows "np_sum (map (\<lambda>i. fst (cells (fill_step h e) i)) js) =
         np_add (np_sum (map (\<lambda>i. fst (cells h i)) js))
                (if point_index (axes h) (fst e) \<in> set js then fst (snd e) else Fin 0)"
proof -
  obtain pt dv dvar where e: "e = (pt, (dv, dvar))" by (cases e) auto
  show ?thesis
    using np_sum_upd [OF assms, of "cells h" "point_index (axes h) pt" dv]
    by (simp add: e fill_step_def Let_def)
qed

lemma fill_sum:
  assumes "distinct js"
  shows "np_sum (map (\<lambda>i. fst (cells (foldl fill_step h es) i)) js) =
         np_add (np_sum (map (\<lambda>i. fst (cells h i)) js))
                (np_sum (map (\<lambda>e. fst (snd e))
                   (filter (\<lambda>e. point_index (axes h) (fst e) \<in> set js) es)))"
proof (induction es arbitrary: h)
  case Nil
  then show ?case by (simp add: np_add_zero_right)
next
  case (Cons e es)
  show ?case
    by (simp add: Cons.IH axes_fill_step fill_step_sum [OF assms] np_add_assoc np_add_zero_left)
qed

lemma distinct_inner_indices: "distinct (inner_indices as)"
  unfolding inner_indices_def by (rule distinct_product_lists) auto

lemma distinct_flow_indices: "distinct (flow_indices as)"
  unfolding flow_indices_def by (rule distinct_product_lists) auto

lemma sorted_wrt_last:
  assumes "sorted_wrt np_lt es" "e \<in> set es"
  shows "e = last es \<or> np_lt e (last es)"
  using assms
proof (induction es)
  case Nil
  then show ?case by simp
next
  case (Cons x xs)
  show ?case
  proof (cases "xs = []")
    case True
    with Cons.prems show ?thesis by simp
  next
    case False
    then have "last xs \<in> set xs" by simp
    with Cons show ?thesis using False by auto
  qed
qed

lemma takeWhile_length_full:
  "length (takeWhile P xs) = length xs \<longleftrightarrow> (\<forall>x\<in>set xs. P x)"
  by (induction xs) auto

lemma takeWhile_length_pos:
  "0 < length (takeWhile P xs) \<longleftrightarrow> xs \<noteq> [] \<and> P (hd xs)"
  by (cases xs) auto

lemma variable_below_last:
  assumes "sorted_wrt np_lt es"
  shows "(\<exists>e\<in>set es. np_lt x e) \<longleftrightarrow> es \<noteq> [] \<and> np_lt x (last es)"
proof
  assume "\<exists>e\<in>set es. np_lt x e"
  then obtain e where e: "e \<in> set es" "np_lt x e" by blast
  from sorted_wrt_last [OF assms e(1)] e show "es \<noteq> [] \<and> np_lt x (last es)"
    by (auto intro: np_lt_trans)
next
  assume "es \<noteq> [] \<and> np_lt x (last es)"
  then show "\<exists>e\<in>set es. np_lt x e" using last_in_set by blast
qed

lemma np_le_not_lt:
  assumes "np_isfinite h" "np_lt x u"
  shows "np_le h x \<longleftrightarrow> \<not> np_lt x h"
  using assms by (cases h; cases x; cases u) (auto simp: np_le_def)

lemma variable_index_inside:
  assumes "axis_ok (Variable es)"
  shows "(0 \<le> axis_index (Variable es) x \<and> axis_index (Variable es) x \<le> axis_size (Variable es) - 1)
         \<longleftrightarrow> axis_contains (Variable es) x"
proof -
  let ?P = "\<lambda>e. \<not> np_lt x e"
  let ?k = "length (takeWhile ?P es)"
  from assms have ne: "es \<noteq> []" and srt: "sorted_wrt np_lt es" and allfin: "\<forall>e\<in>set es. np_isfinite e"
    by (auto simp: list_all_iff)
  from ne allfin have fin: "np_isfinite (hd es)" by simp
  have le: "?k \<le> length es" by (rule length_takeWhile_le)
  have "?k \<noteq> length es \<longleftrightarrow> (\<exists>e\<in>set es. np_lt x e)"
    using takeWhile_length_full [of ?P es] by auto
  with le have up: "?k < length es \<longleftrightarrow> np_lt x (last es)"
    using variable_below_last [OF srt, of x] ne by auto
  have lo: "0 < ?k \<longleftrightarrow> \<not> np_lt x (hd es)"
    using takeWhile_length_pos [of ?P es] ne by simp
  have "(0 \<le> axis_index (Variable es) x \<and> axis_index (Variable es) x \<le> axis_size (Variable es) - 1)
        \<longleftrightarrow> (0 < ?k \<and> ?k < length es)"
    by auto
  also have "\<dots> \<longleftrightarrow> (\<not> np_lt x (hd es) \<and> np_lt x (last es))"
    using lo up by simp
  also have "\<dots> \<longleftrightarrow> (np_le (hd es) x \<and> np_lt x (last es))"
    using np_le_not_lt [OF fin, of x "last es"] by auto
  finally show ?thesis using ne by simp
qed

lemma variable_index_flow:
  "- 1 \<le> axis_index (Variable es) x \<and> axis_index (Variable es) x \<le> axis_size (Variable es)"
  using length_takeWhile_le [of "\<lambda>e. \<not> np_lt x e" es] by simp

lemma regular_z:
  assumes "a < b"
  shows "np_div (np_sub (Fin r) (Fin a)) (np_sub (Fin b) (Fin a)) = Fin ((r - a) / (b - a))"
  using assms by (simp add: np_sub_def)

lemma regular_index_fin:
  assumes "0 < n" "a < b"
  shows "axis_index (Regular n (Fin a) (Fin b)) (Fin r) =
         (if r < a then - 1 else if r < b then \<lfloor>(r - a) / (b - a) * real_of_int n\<rfloor> else n)"
proof -
  from assms have pos: "0 < b - a" by simp
  have lt1: "(r - a) / (b - a) < 1 \<longleftrightarrow> r < b"
    using pos by (simp add: divide_less_eq)
  have ge0: "0 \<le> (r - a) / (b - a) \<longleftrightarrow> a \<le> r"
    using pos by (simp add: zero_le_divide_iff)
  show ?thesis
    using lt1 ge0 by (auto simp: regular_z [OF assms(2)] Let_def)
qed

lemma regular_floor_bounds:
  assumes "0 < n" "a < b" "a \<le> r" "r < b"
  shows "0 \<le> \<lfloor>(r - a) / (b - a) * real_of_int n\<rfloor> \<and> \<lfloor>(r - a) / (b - a) * real_of_int n\<rfloor> \<le> n - 1"
proof -
  let ?z = "(r - a) / (b - a)"
  from assms have z0: "0 \<le> ?z" by simp
  from assms have z1: "?z < 1" by (simp add: divide_less_eq)
  from assms(1) have npos: "0 < real_of_int n" by simp
  from z0 npos have "0 \<le> ?z * real_of_int n" by (intro mult_nonneg_nonneg) simp_all
  then have lo: "0 \<le> \<lfloor>?z * real_of_int n\<rfloor>" by simp
  from z1 npos have "?z * real_of_int n < 1 * real_of_int n" by (intro mult_strict_right_mono)
  then have "?z * real_of_int n < real_of_int n" by simp
  then have "\<lfloor>?z * real_of_int n\<rfloor> < n" by (simp add: floor_less_iff)
  with lo show ?thesis by simp
qed

lemma regular_index_inside:
  assumes "axis_ok (Regular n lo hi)"
  shows "(0 \<le> axis_index (Regular n lo hi) x \<and> axis_index (Regular n lo hi) x \<le> axis_size (Regular n lo hi) - 1)
         \<longleftrightarrow> axis_contains (Regular n lo hi) x"
proof -
  from assms obtain a b where ab: "lo = Fin a" "hi = Fin b" "0 < n" "a < b"
    by (cases lo; cases hi) auto
  show ?thesis
  proof (cases x)
    case (Fin r)
    note idx = regular_index_fin [OF ab(3,4), of r]
    consider "r < a" | "a \<le> r" "r < b" | "b \<le> r" by linarith
    then show ?thesis
    proof cases
      case 1
      with ab idx show ?thesis by (simp add: Fin np_le_def del: axis_index.simps)
    next
      case 2
      define k where "k = \<lfloor>(r - a) / (b - a) * real_of_int n\<rfloor>"
      from regular_floor_bounds [OF ab(3,4) 2] have kb: "0 \<le> k" "k \<le> n - 1"
        unfolding k_def by blast+
      from idx 2 have "axis_index (Regular n (Fin a) (Fin b)) (Fin r) = k"
        unfolding k_def by simp
      with kb 2 ab show ?thesis by (auto simp: Fin np_le_def simp del: axis_index.simps)
    next
      case 3
      with ab idx show ?thesis by (simp add: Fin np_le_def del: axis_index.simps)
    qed
  next
    case PosInf
    with ab show ?thesis by (simp add: np_sub_def inf_of_sign_def Let_def np_le_def)
  next
    case NegInf
    with ab show ?thesis by (simp add: np_sub_def inf_of_sign_def Let_def np_le_def)
  next
    case NaN
    with ab show ?thesis by (simp add: np_sub_def Let_def np_le_def)
  qed
qed

lemma regular_index_flow:
  assumes "axis_ok (Regular n lo hi)"
  shows "- 1 \<le> axis_index (Regular n lo hi) x \<and> axis_index (Regular n lo hi) x \<le> axis_size (Regular n lo hi)"
proof -
  from assms obtain a b where ab: "lo = Fin a" "hi = Fin b" "0 < n" "a < b"
    by (cases lo; cases hi) auto
  show ?thesis
  proof (cases x)
    case (Fin r)
    note idx = regular_index_fin [OF ab(3,4), of r]
    consider "r < a" | "a \<le> r" "r < b" | "b \<le> r" by linarith
    then show ?thesis
    proof cases
      case 1
      with ab idx show ?thesis by (simp add: Fin del: axis_index.simps)
    next
      case 2
      define k where "k = \<lfloor>(r - a) / (b - a) * real_of_int n\<rfloor>"
      from regular_floor_bounds [OF ab(3,4) 2] have kb: "0 \<le> k" "k \<le> n - 1"
        unfolding k_def by blast+
      from idx 2 have "axis_index (Regular n (Fin a) (Fin b)) (Fin r) = k"
        unfolding k_def by simp
      with kb 2 ab show ?thesis by (simp add: Fin del: axis_index.simps)
    next
      case 3
      with ab idx show ?thesis by (simp add: Fin del: axis_index.simps)
    qed
  next
    case PosInf
    with ab show ?thesis by (simp add: np_sub_def inf_of_sign_def Let_def)
  next
    case NegInf
    with ab show ?thesis by (simp add: np_sub_def inf_of_sign_def Let_def)
  next
    case NaN
    with ab show ?thesis by (simp add: np_sub_def Let_def)
  qed
qed

lemma axis_index_inside:
  "axis_ok a \<Longrightarrow> (0 \<le> axis_index a x \<and> axis_index a x \<le> axis_size a - 1) \<longleftrightarrow> axis_contains a x"
  by (cases a) (simp_all only: regular_index_inside variable_index_inside)

lemma axis_index_flow:
  "axis_ok a \<Longrightarrow> - 1 \<le> axis_index a x \<and> axis_index a x \<le> axis_size a"
  by (cases a) (simp_all only: regular_index_flow variable_index_flow)

lemma point_index_inner:
  assumes "length pt = length as" "list_all axis_ok as"
  shows "point_index as pt \<in> set (inner_indices as) \<longleftrightarrow> point_inside as pt"
  using assms
proof (induction pt as rule: list_induct2)
  case Nil
  then show ?case by (simp add: point_index_def inner_indices_def point_inside_def)
next
  case (Cons x pt a as)
  then have ih: "point_index as pt \<in> set (inner_indices as) \<longleftrightarrow> point_inside as pt"
    and ok: "axis_ok a" by simp_all
  have "point_index (a # as) (x # pt) \<in> set (inner_indices (a # as)) \<longleftrightarrow>
        (0 \<le> axis_index a x \<and> axis_index a x \<le> axis_size a - 1) \<and>
        point_index as pt \<in> set (inner_indices as)"
    by (auto simp: point_index_def inner_indices_def)
  with ih axis_index_inside [OF ok, of x] show ?case
    by (simp add: point_inside_def)
qed

lemma point_index_flow:
  assumes "length pt = length as" "list_all axis_ok as"
  shows "point_index as pt \<in> set (flow_indices as)"
  using assms
proof (induction pt as rule: list_induct2)
  case Nil
  then show ?case by (simp add: point_index_def flow_indices_def)
next
  case (Cons x pt a as)
  then have ih: "point_index as pt \<in> set (flow_indices as)" and ok: "axis_ok a" by simp_all
  have "point_index (a # as) (x # pt) \<in> set (flow_indices (a # as)) \<longleftrightarrow>
        (- 1 \<le> axis_index a x \<and> axis_index a x \<le> axis_size a) \<and>
        point_index as pt \<in> set (flow_indices as)"
    by (auto simp: point_index_def flow_indices_def)
  with ih axis_index_flow [OF ok, of x] show ?case by simp
qed

lemma filled_inside:
  assumes "list_all axis_ok as" "\<forall>pt\<in>set pts. length pt = length as"
  shows "np_sum (hvalues (foldl fill_step (empty_hist as st) (zip pts incs))) =
         content_inside as pts incs"
proof -
  let ?h = "empty_hist as st"
  have ax: "axes ?h = as" by (simp add: empty_hist_def)
  have flt: "filter (\<lambda>e. point_index as (fst e) \<in> set (inner_indices as)) (zip pts incs) =
             filter (\<lambda>e. point_inside as (fst e)) (zip pts incs)"
  proof (rule filter_cong [OF refl])
    fix e assume "e \<in> set (zip pts incs)"
    then have "fst e \<in> set pts" using set_zip_leftD [of "fst e" "snd e" pts incs] by simp
    with assms(2) have "length (fst e) = length as" by blast
    then show "(point_index as (fst e) \<in> set (inner_indices as)) = point_inside as (fst e)"
      using point_index_inner [OF _ assms(1)] by blast
  qed
  have zero: "np_sum (map (\<lambda>i. fst (cells ?h i)) (inner_indices as)) = Fin 0"
    by (simp add: empty_hist_def np_sum_zeros)
  show ?thesis
    using fill_sum [OF distinct_inner_indices [of as], of ?h "zip pts incs"]
    by (simp add: hvalues_def axes_foldl_fill_step ax zero flt np_add_zero_left content_inside_def)
qed

lemma filled_total:
  assumes "list_all axis_ok as" "\<forall>pt\<in>set pts. length pt = length as"
  shows "np_sum (values_flow (foldl fill_step (empty_hist as st) (zip pts incs))) =
         content_total pts incs"
proof -
  let ?h = "empty_hist as st"
  have ax: "axes ?h = as" by (simp add: empty_hist_def)
  have flt: "filter (\<lambda>e. point_index as (fst e) \<in> set (flow_indices as)) (zip pts incs) =
             zip pts incs"
  proof -
    have "\<forall>e\<in>set (zip pts incs). point_index as (fst e) \<in> set (flow_indices as)"
    proof
      fix e assume "e \<in> set (zip pts incs)"
      then have "fst e \<in> set pts" using set_zip_leftD [of "fst e" "snd e" pts incs] by simp
      with assms(2) have "length (fst e) = length as" by blast
      then show "point_index as (fst e) \<in> set (flow_indices as)"
        by (rule point_index_flow [OF _ assms(1)])
    qed
    then show ?thesis by simp
  qed
  have zero: "np_sum (map (\<lambda>i. fst (cells ?h i)) (flow_indices as)) = Fin 0"
    by (simp add: empty_hist_def np_sum_zeros)
  show ?thesis
    using fill_sum [OF distinct_flow_indices [of as], of ?h "zip pts incs"]
    by (simp add: values_flow_def axes_foldl_fill_step ax zero flt np_add_zero_left content_total_def)
qed

lemma filled_coverage:
  assumes "list_all axis_ok as" "\<forall>pt\<in>set pts. length pt = length as"
  shows "range_coverage (foldl fill_step (empty_hist as st) (zip pts incs)) =
         np_div (content_inside as pts incs) (content_total pts incs)"
  by (simp add: range_coverage_def filled_inside [OF assms] filled_total [OF assms])

lemma check_coverage_filled:
  assumes "list_all axis_ok as" "\<forall>pt\<in>set pts. length pt = length as"
  shows "check_coverage (foldl fill_step (empty_hist as st) (zip pts incs)) w =
         (Inr (), w\<lparr>warnings := warnings w @ coverage_warnings as pts incs\<rparr>)"
  by (simp add: check_coverage_def filled_coverage [OF assms] coverage_warnings_def Let_def
      when_do_def warn_def ret_def)

lemma make_hist_filled:
  assumes "create_axis data bins rng w = (Inr ax, w1)" "axis_ok ax"
    "expand_weights weights (length data) = Inr incs"
  shows "\<exists>h. make_hist data bins rng weights w =
           (Inr h, w1\<lparr>warnings := warnings w1 @ coverage_warnings [ax] (map (\<lambda>x. [x]) data) incs\<rparr>)"
proof -
  have c: "check_coverage (foldl fill_step (empty_hist [ax] st) (zip (map (\<lambda>x. [x]) data) incs)) w1 =
      (Inr (), w1\<lparr>warnings := warnings w1 @ coverage_warnings [ax] (map (\<lambda>x. [x]) data) incs\<rparr>)" for st
    using assms(2) by (intro check_coverage_filled) auto
  show ?thesis
    using assms(1,3)
    by (simp add: make_hist_def bnd_def seq_def lift_def fill_def Let_def c ret_def)
qed

lemma make_2d_hist_filled:
  assumes "length d0 = length d1"
    "create_axis d0 (fst bins) (fst rng) w = (Inr ax0, w1)"
    "create_axis d1 (snd bins) (snd rng) w1 = (Inr ax1, w2)"
    "axis_ok ax0" "axis_ok ax1"
    "expand_weights weights (length d0) = Inr incs"
  shows "\<exists>h. make_2d_hist [d0, d1] bins rng weights w =
           (Inr h, w2\<lparr>warnings := warnings w2 @
              coverage_warnings [ax0, ax1] (map (\<lambda>(x, y). [x, y]) (zip d0 d1)) incs\<rparr>)"
proof -
  have c: "check_coverage (foldl fill_step (empty_hist [ax0, ax1] Weight)
        (zip (map (\<lambda>(x, y). [x, y]) (zip d0 d1)) incs)) w2 =
      (Inr (), w2\<lparr>warnings := warnings w2 @
         coverage_warnings [ax0, ax1] (map (\<lambda>(x, y). [x, y]) (zip d0 d1)) incs\<rparr>)"
    using assms(4,5) by (intro check_coverage_filled) auto
  show ?thesis
    using assms(1,2,3,6)
    by (simp add: make_2d_hist_def bnd_def seq_def lift_def fill_def Let_def c ret_def)
qed

text \<open>
  Claim C5. When \<open>make_hist\<close> or \<open>make_2d_hist\<close> has built its axes and filled the
  histogram, it adds exactly one warning, carrying the share of the content in the binning
  range, when that share (the summed weight of the entries inside the range of every
  axis, divided by the summed weight of all entries) is below \<open>0.99\<close>, and no warning
  otherwise (also when the share is NaN).
\<close>

theorem coverage_warning:
  "(create_axis data bins rng w = (Inr ax, w1) \<and> axis_ok ax \<and>
      expand_weights weights (length data) = Inr incs
      \<longrightarrow> (\<exists>h. make_hist data bins rng weights w =
             (Inr h, w1\<lparr>warnings := warnings w1 @
                (let c = np_div (content_inside [ax] (map (\<lambda>x. [x]) data) incs)
                                (content_total (map (\<lambda>x. [x]) data) incs)
                 in if np_lt c (Fin (99 / 100)) then [LowCoverage c] else [])\<rparr>)))
   \<and> (length d0 = length d1 \<and>
      create_axis d0 (fst bins2) (fst rng2) w = (Inr ax0, w2) \<and>
      create_axis d1 (snd bins2) (snd rng2) w2 = (Inr ax1, w3) \<and>
      axis_ok ax0 \<and> axis_ok ax1 \<and> expand_weights weights2 (length d0) = Inr incs2
      \<longrightarrow> (\<exists>h. make_2d_hist [d0, d1] bins2 rng2 weights2 w =
             (Inr h, w3\<lparr>warnings := warnings w3 @
                (let c = np_div (content_inside [ax0, ax1] (map (\<lambda>(x, y). [x, y]) (zip d0 d1)) incs2)
                                (content_total (map (\<lambda>(x, y). [x, y]) (zip d0 d1)) incs2)
                 in if np_lt c (Fin (99 / 100)) then [LowCoverage c] else [])\<rparr>)))"
proof (intro conjI impI)
  assume "create_axis data bins rng w = (Inr ax, w1) \<and> axis_ok ax \<and>
      expand_weights weights (length data) = Inr incs"
  then show "\<exists>h. make_hist data bins rng weights w =
             (Inr h, w1\<lparr>warnings := warnings w1 @
                (let c = np_div (content_inside [ax] (map (\<lambda>x. [x]) data) incs)
                                (content_total (map (\<lambda>x. [x]) data) incs)
                 in if np_lt c (Fin (99 / 100)) then [LowCoverage c] else [])\<rparr>)"
    using make_hist_filled [of data bins rng w ax w1 weights incs]
    unfolding coverage_warnings_def by blast
next
  assume "length d0 = length d1 \<and>
      create_axis d0 (fst bins2) (fst rng2) w = (Inr ax0, w2) \<and>
      create_axis d1 (snd bins2) (snd rng2) w2 = (Inr ax1, w3) \<and>
      axis_ok ax0 \<and> axis_ok ax1 \<and> expand_weights weights2 (length d0) = Inr incs2"
  then show "\<exists>h. make_2d_hist [d0, d1] bins2 rng2 weights2 w =
             (Inr h, w3\<lparr>warnings := warnings w3 @
                (let c = np_div (content_inside [ax0, ax1] (map (\<lambda>(x, y). [x, y]) (zip d0 d1)) incs2)
                                (content_total (map (\<lambda>(x, y). [x, y]) (zip d0 d1)) incs2)
                 in if np_lt c (Fin (99 / 100)) then [LowCoverage c] else [])\<rparr>)"
    using make_2d_hist_filled [of d0 d1 bins2 rng2 w ax0 w2 ax1 w3 weights2 incs2]
    unfolding coverage_warnings_def by blast
qed

lemma create_axis_unit_range:
  "create_axis data (NBins n) (Some (Given (Fin 0), Given (Fin 1))) w =
     (Inr (Regular n (Fin 0) (Fin 1)), w)"
  by (simp add: create_axis_NBins resolve_range_def expand_range_def np_gt_def)

theorem coverage_warning_witness:
  "create_axis [Fin (1 / 2), Fin 5] (NBins 2) (Some (Given (Fin 0), Given (Fin 1))) world0 =
     (Inr (Regular 2 (Fin 0) (Fin 1)), world0)
   \<and> axis_ok (Regular 2 (Fin 0) (Fin 1))
   \<and> expand_weights (WScalar (Fin 1)) (length [Fin (1 / 2), Fin 5]) = Inr [(Fin 1, Fin 1), (Fin 1, Fin 1)]
   \<and> (\<exists>h. make_hist [Fin (1 / 2), Fin 5] (NBins 2) (Some (Given (Fin 0), Given (Fin 1)))
            (WScalar (Fin 1)) world0 =
          (Inr h, world0\<lparr>warnings := warnings world0 @ [LowCoverage (Fin (1 / 2))]\<rparr>))
   \<and> length [Fin (1 / 2)] = length [Fin (1 / 4)]
   \<and> create_axis [Fin (1 / 4)] (NBins 1) (Some (Given (Fin 0), Given (Fin 1))) world0 =
     (Inr (Regular 1 (Fin 0) (Fin 1)), world0)
   \<and> axis_ok (Regular 1 (Fin 0) (Fin 1))
   \<and> expand_weights WNone (length [Fin (1 / 2)]) = Inr [(Fin 1, Fin 1)]
   \<and> (\<exists>h. make_2d_hist [[Fin (1 / 2)], [Fin (1 / 4)]] (NBins 1, NBins 1)
            (Some (Given (Fin 0), Given (Fin 1)), Some (Given (Fin 0), Given (Fin 1))) WNone world0 =
          (Inr h, world0\<lparr>warnings := warnings world0 @ []\<rparr>))"
proof -
  let ?r = "Some (Given (Fin 0), Given (Fin 1))"
  have c1: "(let c = np_div (content_inside [Regular 2 (Fin 0) (Fin 1)]
                (map (\<lambda>x. [x]) [Fin (1 / 2), Fin 5]) [(Fin 1, Fin 1), (Fin 1, Fin 1)])
              (content_total (map (\<lambda>x. [x]) [Fin (1 / 2), Fin 5]) [(Fin 1, Fin 1), (Fin 1, Fin 1)])
             in if np_lt c (Fin (99 / 100)) then [LowCoverage c] else []) = [LowCoverage (Fin (1 / 2))]"
    by (simp add: content_inside_def content_total_def point_inside_def np_le_def Let_def)
  have c2: "(let c = np_div (content_inside [Regular 1 (Fin 0) (Fin 1), Regular 1 (Fin 0) (Fin 1)]
                (map (\<lambda>(x, y). [x, y]) (zip [Fin (1 / 2)] [Fin (1 / 4)])) [(Fin 1, Fin 1)])
              (content_total (map (\<lambda>(x, y). [x, y]) (zip [Fin (1 / 2)] [Fin (1 / 4)])) [(Fin 1, Fin 1)])
             in if np_lt c (Fin (99 / 100)) then [LowCoverage c] else []) = []"
    by (simp add: content_inside_def content_total_def point_inside_def np_le_def Let_def)
  note t = coverage_warning [where data = "[Fin (1 / 2), Fin 5]" and bins = "NBins 2" and rng = ?r
      and w = world0 and ax = "Regular 2 (Fin 0) (Fin 1)" and ?w1.0 = world0
      and weights = "WScalar (Fin 1)" and incs = "[(Fin 1, Fin 1), (Fin 1, Fin 1)]"
      and ?d0.0 = "[Fin (1 / 2)]" and ?d1.0 = "[Fin (1 / 4)]" and ?bins2.0 = "(NBins 1, NBins 1)"
      and ?rng2.0 = "(?r, ?r)" and ?ax0.0 = "Regular 1 (Fin 0) (Fin 1)" and ?w2.0 = world0
      and ?ax1.0 = "Regular 1 (Fin 0) (Fin 1)" and ?w3.0 = world0 and ?weights2.0 = WNone
      and ?incs2.0 = "[(Fin 1, Fin 1)]"]
  show ?thesis
    using t unfolding c1 c2
    by (simp add: create_axis_unit_range increment_def)
qed

section \<open>The error monad and the checks of the arguments\<close>










lemma check_binning_ok:
  "list_all (\<lambda>h. binning h = binning (hd hs)) hs \<Longrightarrow> check_binning_consistency hs = ret ()"
  by (simp add: check_binning_consistency_def)

lemma check_binning_bad:
  "\<not> list_all (\<lambda>h. binning h = binning (hd hs)) hs \<Longrightarrow>
   check_binning_consistency hs = raise (ValueError ''The bins of the histograms must be equal.'')"
  by (simp add: check_binning_consistency_def)



lemma flatten_all_False: "flatten_all False hs = Inr hs"
  by (simp add: flatten_all_def)


lemma map_M_Nil_iff: "map_M f xs = Inr [] \<longleftrightarrow> xs = []"
  by (cases xs) (auto split: sum.splits)

lemma flatten_all_Nil_iff: "flatten_all b hs = Inr [] \<longleftrightarrow> hs = []"
  by (auto simp: flatten_all_def map_M_Nil_iff)










section \<open>Figures and axes\<close>

lemma extends_refl: "extends w w"
  by (simp add: extends_def)

lemma extends_trans: "extends w w1 \<Longrightarrow> extends w1 w2 \<Longrightarrow> extends w w2"
proof -
  assume a: "extends w w1" and b: "extends w1 w2"
  from a obtain r1 where r1: "calls w1 = calls w @ r1"
    by (metis append_take_drop_id extends_def)
  from b obtain r2 where r2: "calls w2 = calls w1 @ r2"
    by (metis append_take_drop_id extends_def)
  from a b have "fresh w \<le> fresh w2" by (simp add: extends_def)
  with r1 r2 show ?thesis by (simp add: extends_def)
qed


lemma grows_ret: "grows (ret x)"
  by (simp add: grows_def ret_def extends_refl)

lemma grows_raise: "grows (raise e)"
  by (simp add: grows_def raise_def extends_refl)

lemma grows_lift: "grows (lift r)"
  by (simp add: grows_def lift_def extends_refl)

lemma grows_emit: "grows (emit r m a)"
  by (simp add: grows_def emit_def extends_def)

lemma grows_emit_new: "grows (emit_new r m a)"
  by (simp add: grows_def emit_new_def extends_def)

lemma grows_subplots: "grows (subplots n a)"
  by (simp add: grows_def subplots_def extends_def)

lemma grows_warn: "grows (warn x)"
  by (simp add: grows_def warn_def extends_def)

lemma grows_bnd: "grows m \<Longrightarrow> (\<And>x. grows (f x)) \<Longrightarrow> grows (bnd m f)"
  unfolding grows_def bnd_def
proof
  fix w
  assume m: "\<forall>w. extends w (snd (m w))" and f: "\<And>x. \<forall>w. extends w (snd (f x w))"
  obtain r w1 where mw: "m w = (r, w1)" by (cases "m w")
  with m have e1: "extends w w1" by (metis snd_conv)
  show "extends w (snd (case m w of (Inl e, w') \<Rightarrow> (Inl e, w') | (Inr x, w') \<Rightarrow> f x w'))"
  proof (cases r)
    case (Inl e)
    with mw e1 show ?thesis by simp
  next
    case (Inr x)
    from f [of x] have "extends w1 (snd (f x w1))" by blast
    with e1 have "extends w (snd (f x w1))" by (rule extends_trans)
    with mw Inr show ?thesis by simp
  qed
qed

lemma grows_seq: "grows m \<Longrightarrow> grows k \<Longrightarrow> grows (seq m k)"
  by (simp add: seq_def grows_bnd)

lemma grows_if: "grows a \<Longrightarrow> grows b \<Longrightarrow> grows (if c then a else b)"
  by simp

lemma grows_when_do: "grows m \<Longrightarrow> grows (when_do b m)"
  by (simp add: when_do_def grows_ret)

lemma grows_case_prod: "(\<And>a b. grows (f a b)) \<Longrightarrow> grows (case t of (a, b) \<Rightarrow> f a b)"
  by (cases t) simp

lemma grows_for_each: "(\<And>x. grows (f x)) \<Longrightarrow> grows (for_each xs f)"
  by (induction xs) (simp_all add: grows_ret grows_seq)

lemmas grows_intros = grows_ret grows_raise grows_lift grows_emit grows_emit_new grows_subplots
  grows_warn grows_bnd grows_seq grows_if grows_when_do grows_case_prod grows_for_each

lemma grows_check_binning: "grows (check_binning_consistency hs)"
  by (simp add: check_binning_consistency_def grows_intros)

lemma grows_check_uncertainty: "grows (check_uncertainty_type t)"
  by (simp add: check_uncertainty_type_def grows_intros)

lemma grows_set_fitting: "grows (set_fitting_ylabel_fontsize M ax)"
  by (simp add: set_fitting_ylabel_fontsize_def grows_intros)

lemma grows_create_comparison_figure: "grows create_comparison_figure"
  unfolding create_comparison_figure_def by (intro grows_intros)

lemma grows_comparison_figure: "grows (comparison_figure fig ax_main ax_comparison)"
  unfolding comparison_figure_def by (intro grows_intros grows_create_comparison_figure)

lemma grows_model_figure: "grows (model_figure fig ax)"
  unfolding model_figure_def by (intro grows_intros)

lemma grows_plot_hist_one: "grows (plot_hist_one h ax kwargs)"
  unfolding plot_hist_one_def Let_def by (intro grows_intros)

lemma grows_plot_hist_list: "grows (plot_hist_list hs ax kwargs)"
  unfolding plot_hist_list_def Let_def by (intro grows_intros grows_check_binning)

lemma grows_plot_error_hist: "grows (plot_error_hist M h ax t kwargs)"
  unfolding plot_error_hist_def Let_def by (intro grows_intros grows_check_uncertainty)

lemma grows_plot_hist_uncertainties: "grows (plot_hist_uncertainties h ax kwargs)"
  unfolding plot_hist_uncertainties_def Let_def by (intro grows_intros)

lemma grows_split_band: "grows (split_band h ax b y)"
  unfolding split_band_def by (intro grows_intros)

lemma grows_comparison_decoration: "grows (comparison_decoration h ax c ru ylim h1 h2)"
  unfolding comparison_decoration_def Let_def by (intro grows_intros grows_split_band)

lemma grows_draw_comparison: "grows (draw_comparison M c h ax kw)"
  unfolding draw_comparison_def
  by (intro grows_intros grows_plot_hist_one grows_plot_error_hist)

lemma grows_finish_comparison: "grows (finish_comparison h1 h2 ax opts)"
  unfolding finish_comparison_def by (intro grows_intros grows_comparison_decoration)

lemma grows_plot_comparison: "grows (plot_comparison M h1 h2 ax opts)"
  unfolding plot_comparison_def
  by (intro grows_intros grows_check_binning grows_draw_comparison grows_finish_comparison)

lemma grows_plot_unstacked: "grows (plot_unstacked st un ma sk ax)"
  unfolding plot_unstacked_def Let_def
  by (intro grows_intros grows_plot_hist_list grows_plot_hist_one)

lemma grows_plot_model: "grows (plot_model M ma xl yl sk fl n fig ax)"
  unfolding plot_model_def Let_def
  by (intro grows_intros grows_check_binning grows_model_figure grows_plot_hist_list
      grows_plot_unstacked grows_set_fitting)

lemma grows_model_uncertainty_band: "grows (model_uncertainty_band mu h ax l ck)"
  unfolding model_uncertainty_band_def by (intro grows_intros grows_plot_hist_uncertainties)

lemma grows_compare_data_model:
  "grows (compare_data_model M d ma xl yl dl sk fl mu ml fig ax_main ax_comparison ck)"
  unfolding compare_data_model_def Let_def
  by (intro grows_intros grows_check_binning grows_comparison_figure grows_plot_model
      grows_plot_error_hist grows_model_uncertainty_band grows_plot_comparison grows_set_fitting)

lemma grows_compare_two_hist:
  "grows (compare_two_hist M h1 h2 xl yl l1 l2 fig ax_main ax_comparison ck)"
  unfolding compare_two_hist_def Let_def
  by (intro grows_intros grows_check_binning grows_comparison_figure grows_plot_hist_one
      grows_plot_comparison)

lemma grows_colorbar_figure: "grows (colorbar_figure fig ax cb)"
  unfolding colorbar_figure_def by (intro grows_intros)

lemma grows_plot_2d_hist: "grows (plot_2d_hist h fig ax cb pk ck sq)"
  unfolding plot_2d_hist_def Let_def by (intro grows_intros grows_colorbar_figure)




lemma check_inconsistent:
  "\<not> consistent_binning hs \<Longrightarrow>
   check_binning_consistency hs = raise (ValueError ''The bins of the histograms must be equal.'')"
  by (simp add: consistent_binning_def check_binning_consistency_def)












lemma subplots_makes_figure:
  "\<exists>w1. subplots n a w = (Inr (Fig (fresh w), map Ax [Suc (fresh w)..<Suc (fresh w) + n]), w1)
        \<and> makes_figure w w1"
  by (simp add: subplots_def makes_figure_def extends_def new_calls_def)












section \<open>The histogram after plot\_hist\<close>

lemma inner_indices_nan_hist: "inner_indices (axes nan_hist) = [[0], [1]]"
  by (simp add: nan_hist_def inner_indices_def upto.simps)

lemma hvalues_nan_hist: "hvalues nan_hist = [NaN, Fin 1]"
  by (simp add: hvalues_def inner_indices_nan_hist) (simp add: nan_hist_def)

lemma values_nan_to_num_nan_hist:
  "fst (values_nan_to_num nan_hist) = [Fin 0, Fin 1]"
  "hvalues (snd (values_nan_to_num nan_hist)) = [Fin 0, Fin 1]"
  by (simp_all add: values_nan_to_num_def np_nan_to_num_def hvalues_nan_hist Let_def set_values_def
      hvalues_def inner_indices_nan_hist)
     (simp_all add: nan_hist_def)

text \<open>
  Claim C10, evaluated on a histogram whose first bin holds NaN. \<open>plot_hist\<close> forwards the
  weights \<open>[0, 1]\<close>: NaN has become 0, as the claim says. But line 278 calls
  \<open>np.nan_to_num(hist.values(), 0)\<close>, whose second positional parameter is \<open>copy\<close>, so the
  replacement is written into the view that \<open>hist.values()\<close> returns: after the call the
  histogram itself holds \<open>[0, 1]\<close>, against the last part of the claim.
\<close>

theorem plot_hist_overwrites_nan:
  "hvalues nan_hist = [NaN, Fin 1]
   \<and> (\<exists>h' w' a. plot_hist (One nan_hist) (Ax 0) [] world0 = (Inr (One h'), w')
        \<and> calls w' = [\<lparr>receiver = Ax 0, meth = ''hist'', args = a\<rparr>]
        \<and> map_of a ''weights'' = Some (pyfloats [Fin 0, Fin 1])
        \<and> hvalues h' = [Fin 0, Fin 1])"
  by (simp add: hvalues_nan_hist plot_hist_def plot_hist_one_def Let_def forward_kwargs_def
      bnd_def lift_def seq_def emit_def ret_def world0_def values_nan_to_num_nan_hist)


section \<open>Two calls of plot\_model with one dictionary\<close>

lemma edges_unit: "axis_edges (Regular 1 (Fin 0) (Fin 1)) = [Fin 0, Fin 1]"
  by (simp add: upto.simps np_sub_def)

text \<open>
  Claim C3, evaluated on two successive calls of \<open>plot_model\<close> with the same dictionary
  \<open>{"show": False, "label": "Sum", "color": "navy"}\<close> and one unstacked component. Line 1144
  pops \<open>"show"\<close> from the dictionary of the caller. The first call draws the component only
  and leaves the dictionary without \<open>"show"\<close>; the second call, with the same dictionary
  object, draws the component and the sum.
\<close>

theorem plot_model_second_call_differs:
  "(case plot_model module0 unstacked_model PNone PNone hidden_sum False 1
           (Some (Fig 0)) (Some (Ax 1)) world0 of
      (Inr (r1, d1), w1) \<Rightarrow>
        d1 = [(''label'', PStr ''Sum''), (''color'', PStr ''navy'')] \<and> d1 \<noteq> hidden_sum
        \<and> length (filter (\<lambda>c. meth c = ''hist'') (new_calls world0 w1)) = 1
        \<and> (case plot_model module0 unstacked_model PNone PNone d1 False 1
                    (Some (Fig 0)) (Some (Ax 1)) w1 of
              (Inr (r2, d2), w2) \<Rightarrow>
                d2 = d1 \<and> length (filter (\<lambda>c. meth c = ''hist'') (new_calls w1 w2)) = 2
            | (Inl e, w2) \<Rightarrow> False)
    | (Inl e, w1) \<Rightarrow> False)"
  by (simp add: plot_model_def unstacked_model_def hidden_sum_def flatten_all_def
      check_binning_consistency_def model_figure_def plot_unstacked_def plot_hist_list_def
      plot_hist_one_def dict_pop_def Let_def forward_kwargs_def edge_limits_def upto.simps
      set_fitting_ylabel_fontsize_def unit_hist_def
      values_nan_to_num_def np_nan_to_num_def set_values_def hist_add_def
      bnd_def lift_def seq_def emit_def ret_def raise_def world0_def new_calls_def)


section \<open>The binning check after flattening\<close>

lemma grids_mismatch: "binning grid_a \<noteq> binning grid_b"
  by (simp add: binning_def grid_a_def grid_b_def upto.simps)

lemma flatten_grid_a:
  "\<exists>c. flatten_2d_hist grid_a = Inr \<lparr>axes = [Regular 2 (Fin 0) (Fin 2)], storage = Weight, cells = c\<rparr>"
  by (simp add: flatten_2d_hist_def grid_a_def weight_hist_def hvalues_def variances_def
      inner_indices_def upto.simps Let_def)

lemma flatten_grid_b:
  "\<exists>c. flatten_2d_hist grid_b = Inr \<lparr>axes = [Regular 2 (Fin 0) (Fin 2)], storage = Weight, cells = c\<rparr>"
  by (simp add: flatten_2d_hist_def grid_b_def weight_hist_def hvalues_def variances_def
      inner_indices_def upto.simps Let_def)

text \<open>
  Claim C7, evaluated on two histograms of two axes whose binnings differ (one bin by two
  bins, and two bins by one bin). With \<open>flatten_2d_hist\<close> set, \<open>plot_model\<close> flattens both
  to the axis \<open>Regular(2, 0, 2)\<close> (lines 1104 to 1106) before it checks the binning
  (line 1113), so the check passes and the histograms are drawn; \<open>plot_mc\<close>, which checks
  its arguments as they come (line 874), raises on the same two histograms.
\<close>

theorem flattening_hides_mismatched_binning:
  "binning grid_a \<noteq> binning grid_b
   \<and> (case plot_model module0 grid_model PNone PNone [] True 1 None None world0 of
        (Inr r, w1) \<Rightarrow> length (filter (\<lambda>c. meth c = ''hist'') (calls w1)) = 1
      | (Inl e, w1) \<Rightarrow> False)
   \<and> plot_mc module0 [grid_a, grid_b] None PNone PNone PNone PNone (PStr ''Signal'') (PStr ''red'')
        None None True True 1 world0 =
       (Inl (ValueError ''The bins of the histograms must be equal.''), world0)"
proof -
  from flatten_grid_a obtain ca
    where a: "flatten_2d_hist grid_a = Inr \<lparr>axes = [Regular 2 (Fin 0) (Fin 2)], storage = Weight, cells = ca\<rparr>"
    by blast
  from flatten_grid_b obtain cb
    where b: "flatten_2d_hist grid_b = Inr \<lparr>axes = [Regular 2 (Fin 0) (Fin 2)], storage = Weight, cells = cb\<rparr>"
    by blast
  have pm: "(case plot_model module0 grid_model PNone PNone [] True 1 None None world0 of
        (Inr r, w1) \<Rightarrow> length (filter (\<lambda>c. meth c = ''hist'') (calls w1)) = 1
      | (Inl e, w1) \<Rightarrow> False)"
    by (simp add: plot_model_def grid_model_def flatten_all_def a b binning_def
      check_binning_consistency_def model_figure_def subplots_def plot_unstacked_def plot_hist_list_def
      Let_def forward_kwargs_def edge_limits_def upto.simps
      set_fitting_ylabel_fontsize_def
      values_nan_to_num_def np_nan_to_num_def set_values_def
      bnd_def lift_def seq_def emit_def ret_def raise_def world0_def)
  have mc: "plot_mc module0 [grid_a, grid_b] None PNone PNone PNone PNone (PStr ''Signal'') (PStr ''red'')
        None None True True 1 world0 =
       (Inl (ValueError ''The bins of the histograms must be equal.''), world0)"
    using grids_mismatch
    by (simp add: plot_mc_def check_binning_consistency_def seq_def bnd_def raise_def)
  from grids_mismatch pm mc show ?thesis by blast
qed

section \<open>Functions that return\<close>


lemma sure_lift: "r = Inr x \<Longrightarrow> P x \<Longrightarrow> sure (lift r) P"
  by (simp add: sure_def lift_def extends_refl)





lemma sure_weaken: "sure m P \<Longrightarrow> (\<And>x. P x \<Longrightarrow> Q x) \<Longrightarrow> sure m Q"
  unfolding sure_def by blast












section \<open>The values plotted by plot\_comparison\<close>


















section \<open>Calls made by a function that returns\<close>





lemma yields_raise: "yields (raise e) R"
  by (simp add: yields_def raise_def)



lemma yields_if: "yields a R \<Longrightarrow> yields b R \<Longrightarrow> yields (if c then a else b) R"
  by simp











section \<open>The uncertainties of the data in compare\_data\_model\<close>






















lemma unit_sum: "hist_sum [unit_hist] = Inr unit_hist"
  by simp







end
